theory Spec2Isabelle
  imports Main
begin

section \<open>JavaScript values\<close>

text \<open>
  The scripts handle rows returned by the database driver, payloads returned by the HTTP
  client and the attribute values of the generic field store. All of them are plain
  JavaScript values. Numbers are kept as the integers (identifiers, counts) plus \<open>NaN\<close>;
  fractions and infinities are not represented, and a digit run is parsed exactly.
  Strings are lists of code units below 256. An object is its list of own properties in
  insertion order.
\<close>

datatype jsval =
    JUndefined
  | JNull
  | JBool bool
  | JNum int
  | JNaN
  | JStr string
  | JArr "jsval list"
  | JObj "(string \<times> jsval) list"

text \<open>The \<open>typeof\<close> operator.\<close>

fun typeof :: "jsval \<Rightarrow> string" where
  "typeof JUndefined = ''undefined''"
| "typeof JNull = ''object''"
| "typeof (JBool b) = ''boolean''"
| "typeof (JNum n) = ''number''"
| "typeof JNaN = ''number''"
| "typeof (JStr s) = ''string''"
| "typeof (JArr xs) = ''object''"
| "typeof (JObj ps) = ''object''"

text \<open>\<open>!v\<close>: the values that convert to \<open>false\<close>.\<close>

fun falsy :: "jsval \<Rightarrow> bool" where
  "falsy JUndefined = True"
| "falsy JNull = True"
| "falsy (JBool b) = (\<not> b)"
| "falsy (JNum n) = (n = 0)"
| "falsy JNaN = True"
| "falsy (JStr s) = (s = [])"
| "falsy (JArr xs) = False"
| "falsy (JObj ps) = False"

text \<open>\<open>a || b\<close> yields \<open>a\<close> unless it is falsy.\<close>

definition js_or :: "jsval \<Rightarrow> jsval \<Rightarrow> jsval" where
  "js_or a b = (if falsy a then b else a)"

subsection \<open>Strings: white space, digits, numeric literals\<close>

text \<open>
  White space and line terminators in the range of the model: TAB, LF, VT, FF, CR, SP and
  NBSP. \<open>String.prototype.trim\<close>, \<open>parseInt\<close> and the conversion of a string to a number
  all strip exactly these.
\<close>

definition isWhiteSpace :: "char \<Rightarrow> bool" where
  "isWhiteSpace c =
     (c \<in> set [CHR 0x09, CHR 0x0A, CHR 0x0B, CHR 0x0C, CHR 0x0D, CHR 0x20, CHR 0xA0])"

definition trimStart :: "string \<Rightarrow> string" where
  "trimStart s = dropWhile isWhiteSpace s"

definition trimEnd :: "string \<Rightarrow> string" where
  "trimEnd s = rev (dropWhile isWhiteSpace (rev s))"

definition trim :: "string \<Rightarrow> string" where
  "trim s = trimEnd (trimStart s)"

definition isDigit :: "char \<Rightarrow> bool" where
  "isDigit c = (c \<in> set ''0123456789'')"

definition isHexDigit :: "char \<Rightarrow> bool" where
  "isHexDigit c = (c \<in> set ''0123456789abcdefABCDEF'')"

definition isOctalDigit :: "char \<Rightarrow> bool" where
  "isOctalDigit c = (c \<in> set ''01234567'')"

definition isBinaryDigit :: "char \<Rightarrow> bool" where
  "isBinaryDigit c = (c \<in> set ''01'')"

definition digitValue :: "char \<Rightarrow> nat" where
  "digitValue c = of_char c - 48"

definition digitsToNat :: "string \<Rightarrow> nat" where
  "digitsToNat ds = foldl (\<lambda>a c. 10 * a + digitValue c) 0 ds"

definition stripSign :: "string \<Rightarrow> string" where
  "stripSign s =
     (case s of
        [] \<Rightarrow> []
      | c # r \<Rightarrow> if c = CHR ''+'' \<or> c = CHR ''-'' then r else s)"

definition allDigits :: "(char \<Rightarrow> bool) \<Rightarrow> string \<Rightarrow> bool" where
  "allDigits p s = (\<not> s = [] \<and> list_all p s)"

text \<open>The grammar of a string that converts to a number (\<open>StringNumericLiteral\<close>).\<close>

definition exponentPart :: "string \<Rightarrow> bool" where
  "exponentPart s =
     (case s of
        [] \<Rightarrow> True
      | c # r \<Rightarrow> (c = CHR ''e'' \<or> c = CHR ''E'') \<and> allDigits isDigit (stripSign r))"

definition strUnsignedDecimalLiteral :: "string \<Rightarrow> bool" where
  "strUnsignedDecimalLiteral s =
     (if s = ''Infinity'' then True
      else
        let ip = takeWhile isDigit s; r = dropWhile isDigit s in
        case r of
          [] \<Rightarrow> \<not> ip = []
        | c # r2 \<Rightarrow>
            if c = CHR ''.'' then
              (let fp = takeWhile isDigit r2; r3 = dropWhile isDigit r2 in
               \<not> (ip = [] \<and> fp = []) \<and> exponentPart r3)
            else \<not> ip = [] \<and> exponentPart r)"

definition nonDecimalIntegerLiteral :: "string \<Rightarrow> bool" where
  "nonDecimalIntegerLiteral s =
     (case s of
        c0 # c1 # r \<Rightarrow>
          c0 = CHR ''0'' \<and>
          ((c1 \<in> set ''xX'' \<and> allDigits isHexDigit r) \<or>
           (c1 \<in> set ''oO'' \<and> allDigits isOctalDigit r) \<or>
           (c1 \<in> set ''bB'' \<and> allDigits isBinaryDigit r))
      | _ \<Rightarrow> False)"

text \<open>\<open>isNaN(s)\<close> on a string: the string does not convert to a number.\<close>

definition isNaN :: "string \<Rightarrow> bool" where
  "isNaN s =
     (let t = trim s in
      \<not> (t = [] \<or> nonDecimalIntegerLiteral t \<or> strUnsignedDecimalLiteral (stripSign t)))"

text \<open>
  \<open>parseInt(s, 10)\<close>: leading white space, an optional sign, then the longest prefix of
  decimal digits; \<open>NaN\<close> when that prefix is empty. The digits are read exactly: the
  rounding of a double above \<open>2^53\<close>, and \<open>Infinity\<close> for a very long run, are outside
  the numbers of the model.
\<close>

definition parseInt :: "string \<Rightarrow> jsval" where
  "parseInt s =
     (let t = trimStart s;
          neg = (case t of [] \<Rightarrow> False | c # _ \<Rightarrow> c = CHR ''-'');
          z = takeWhile isDigit (stripSign t)
      in if z = [] then JNaN
         else JNum ((if neg then - 1 else 1) * int (digitsToNat z)))"

text \<open>\<open>s.match(/\d+/)\<close>: the first maximal run of digits, or no match.\<close>

definition matchDigits :: "string \<Rightarrow> string option" where
  "matchDigits s =
     (let r = dropWhile (\<lambda>c. \<not> isDigit c) s in
      if r = [] then None else Some (takeWhile isDigit r))"

section \<open>The field extractor\<close>

text \<open>
  \<open>extractIdFromValue\<close> of UserProfileReport.js. Each branch of the source either returns
  or falls through to the next one; a branch is a function to \<open>option\<close>, \<open>None\<close> meaning
  that control fell through.
\<close>

definition arrayBranch :: "jsval \<Rightarrow> jsval option" where
  "arrayBranch val =
     (case val of
        JArr (firstValue # _) \<Rightarrow>
          if typeof firstValue = ''number'' then Some firstValue
          else (case firstValue of
                  JStr s \<Rightarrow> if \<not> isNaN s then Some (parseInt s) else None
                | _ \<Rightarrow> None)
      | _ \<Rightarrow> None)"

definition stringBranch :: "jsval \<Rightarrow> jsval option" where
  "stringBranch val =
     (case val of
        JStr s \<Rightarrow>
          (case matchDigits s of
             Some m \<Rightarrow> Some (parseInt m)
           | None \<Rightarrow> if \<not> isNaN s then Some (parseInt s) else None)
      | _ \<Rightarrow> None)"

definition extractIdFromValue :: "jsval \<Rightarrow> jsval" where
  "extractIdFromValue val =
     (if falsy val then JNull
      else if typeof val = ''number'' then val
      else (case arrayBranch val of
              Some r \<Rightarrow> r
            | None \<Rightarrow> (case stringBranch val of
                          Some r \<Rightarrow> r
                        | None \<Rightarrow> JNull)))"

text \<open>The reading of the contract "a positive integer or null".\<close>

fun positiveIntegerOrNull :: "jsval \<Rightarrow> bool" where
  "positiveIntegerOrNull JNull = True"
| "positiveIntegerOrNull (JNum n) = (0 < n)"
| "positiveIntegerOrNull _ = False"

section \<open>Objects, property access and serialisation\<close>

type_synonym jsobj = "(string \<times> jsval) list"

text \<open>\<open>row.name\<close> on an object: the own property, or \<open>undefined\<close>.\<close>

definition field :: "jsobj \<Rightarrow> string \<Rightarrow> jsval" where
  "field r k = (case map_of r k of None \<Rightarrow> JUndefined | Some v \<Rightarrow> v)"

text \<open>
  \<open>obj[k] = v\<close>: an existing property keeps its place, a new one is added last. Names
  that look like array indices, which JavaScript lists first, and the name \<open>__proto__\<close>
  are treated like every other name.
\<close>

fun setProp :: "jsobj \<Rightarrow> string \<Rightarrow> jsval \<Rightarrow> jsobj" where
  "setProp [] k v = [(k, v)]"
| "setProp (p # ps) k v = (if fst p = k then (k, v) # ps else p # setProp ps k v)"

definition isNullish :: "jsval \<Rightarrow> bool" where
  "isNullish v = (v = JUndefined \<or> v = JNull)"

definition digitChar :: "nat \<Rightarrow> char" where
  "digitChar d = char_of (48 + d)"

fun showNat :: "nat \<Rightarrow> string" where
  "showNat n = (if n < 10 then [digitChar n] else showNat (n div 10) @ [digitChar (n mod 10)])"

declare showNat.simps [simp del]

definition showInt :: "int \<Rightarrow> string" where
  "showInt i = (if i < 0 then CHR ''-'' # showNat (nat (- i)) else showNat (nat i))"

fun joinWith :: "string \<Rightarrow> string list \<Rightarrow> string" where
  "joinWith sep [] = []"
| "joinWith sep [x] = x"
| "joinWith sep (x # y # ys) = x @ sep @ joinWith sep (y # ys)"

text \<open>
  Property and index reads on a value that is neither \<open>null\<close> nor \<open>undefined\<close>. The
  names read by the scripts are names of payload fields; of the inherited members only
  \<open>length\<close> is kept.
\<close>

fun property :: "jsval \<Rightarrow> string \<Rightarrow> jsval" where
  "property (JObj ps) k = field ps k"
| "property (JArr xs) k = (if k = ''length'' then JNum (int (length xs)) else JUndefined)"
| "property (JStr s) k = (if k = ''length'' then JNum (int (length s)) else JUndefined)"
| "property _ k = JUndefined"

fun elemAt :: "jsval \<Rightarrow> nat \<Rightarrow> jsval" where
  "elemAt (JArr xs) i = (if i < length xs then xs ! i else JUndefined)"
| "elemAt (JStr s) i = (if i < length s then JStr [s ! i] else JUndefined)"
| "elemAt (JObj ps) i = field ps (showNat i)"
| "elemAt _ i = JUndefined"

text \<open>Optional chaining: \<open>v?.k\<close> and \<open>v?.[i]\<close>.\<close>

definition optProp :: "jsval \<Rightarrow> string \<Rightarrow> jsval" where
  "optProp v k = (if isNullish v then JUndefined else property v k)"

definition optElemAt :: "jsval \<Rightarrow> nat \<Rightarrow> jsval" where
  "optElemAt v i = (if isNullish v then JUndefined else elemAt v i)"

text \<open>The conversion of a value to a string, as a property key undergoes it.\<close>

fun toString :: "jsval \<Rightarrow> string"
  and elementStrings :: "jsval list \<Rightarrow> string list"
where
  "toString JUndefined = ''undefined''"
| "toString JNull = ''null''"
| "toString (JBool b) = (if b then ''true'' else ''false'')"
| "toString (JNum n) = showInt n"
| "toString JNaN = ''NaN''"
| "toString (JStr s) = s"
| "toString (JArr xs) = joinWith '','' (elementStrings xs)"
| "toString (JObj ps) = ''[object Object]''"
| "elementStrings [] = []"
| "elementStrings (x # xs) = (if isNullish x then [] else toString x) # elementStrings xs"

text \<open>\<open>JSON.stringify\<close>.\<close>

definition hexChar :: "nat \<Rightarrow> char" where
  "hexChar d = (''0123456789abcdef'' ! (d mod 16))"

definition escapeChar :: "char \<Rightarrow> string" where
  "escapeChar c =
     (if c = CHR 0x22 then [CHR 0x5C, CHR 0x22]
      else if c = CHR 0x5C then [CHR 0x5C, CHR 0x5C]
      else if c = CHR 0x08 then [CHR 0x5C, CHR ''b'']
      else if c = CHR 0x0C then [CHR 0x5C, CHR ''f'']
      else if c = CHR 0x0A then [CHR 0x5C, CHR ''n'']
      else if c = CHR 0x0D then [CHR 0x5C, CHR ''r'']
      else if c = CHR 0x09 then [CHR 0x5C, CHR ''t'']
      else if (of_char c :: nat) < 32
        then [CHR 0x5C, CHR ''u'', CHR ''0'', CHR ''0'',
              hexChar (of_char c div 16), hexChar (of_char c)]
      else [c])"

definition quoteJSONString :: "string \<Rightarrow> string" where
  "quoteJSONString s = [CHR 0x22] @ concat (map escapeChar s) @ [CHR 0x22]"

fun serializeJSON :: "jsval \<Rightarrow> string option"
  and serializeElements :: "jsval list \<Rightarrow> string list"
  and serializeProperties :: "(string \<times> jsval) list \<Rightarrow> string list"
where
  "serializeJSON JUndefined = None"
| "serializeJSON JNull = Some ''null''"
| "serializeJSON (JBool b) = Some (if b then ''true'' else ''false'')"
| "serializeJSON (JNum n) = Some (showInt n)"
| "serializeJSON JNaN = Some ''null''"
| "serializeJSON (JStr s) = Some (quoteJSONString s)"
| "serializeJSON (JArr xs) = Some (''['' @ joinWith '','' (serializeElements xs) @ '']'')"
| "serializeJSON (JObj ps) = Some (''{'' @ joinWith '','' (serializeProperties ps) @ ''}'')"
| "serializeElements [] = []"
| "serializeElements (x # xs) =
     (case serializeJSON x of None \<Rightarrow> ''null'' | Some t \<Rightarrow> t) # serializeElements xs"
| "serializeProperties [] = []"
| "serializeProperties (p # ps) =
     (case serializeJSON (snd p) of
        None \<Rightarrow> serializeProperties ps
      | Some t \<Rightarrow> (quoteJSONString (fst p) @ '':'' @ t) # serializeProperties ps)"

definition JSON_stringify :: "jsval \<Rightarrow> jsval" where
  "JSON_stringify v = (case serializeJSON v of None \<Rightarrow> JUndefined | Some t \<Rightarrow> JStr t)"

section \<open>Exceptions\<close>

text \<open>
  A computation that may throw returns \<open>Inl\<close> of the exception. \<open>TypeError\<close> is what a
  property read on \<open>null\<close> or \<open>undefined\<close> (or a call of a missing method) throws,
  \<open>QueryError\<close> what the database driver throws, \<open>RequestError\<close> what the HTTP client
  throws (a network failure, or a response whose status is not 2xx).
\<close>

datatype exn = TypeError | QueryError | RequestError

definition bind :: "exn + 'a \<Rightarrow> ('a \<Rightarrow> exn + 'b) \<Rightarrow> exn + 'b" where
  "bind m f = (case m of Inl e \<Rightarrow> Inl e | Inr x \<Rightarrow> f x)"

definition tryCatch :: "exn + 'a \<Rightarrow> (exn \<Rightarrow> exn + 'a) \<Rightarrow> exn + 'a" where
  "tryCatch m handler = (case m of Inl e \<Rightarrow> handler e | Inr x \<Rightarrow> Inr x)"

definition getProp :: "jsval \<Rightarrow> string \<Rightarrow> exn + jsval" where
  "getProp v k = (if isNullish v then Inl TypeError else Inr (property v k))"

definition getElemAt :: "jsval \<Rightarrow> nat \<Rightarrow> exn + jsval" where
  "getElemAt v i = (if isNullish v then Inl TypeError else Inr (elemAt v i))"

text \<open>\<open>v.trim()\<close>: only a string has the method.\<close>

definition callTrim :: "jsval \<Rightarrow> exn + jsval" where
  "callTrim v = (case v of JStr s \<Rightarrow> Inr (JStr (trim s)) | _ \<Rightarrow> Inl TypeError)"

section \<open>The databases and the HTTP client\<close>

text \<open>
  The source database is read only. A query is named after the constant that holds its
  text in the source; the client answers a query and its parameters with rows (objects),
  or throws.
\<close>

datatype query =
    UsersQuery
  | CustomFieldsQuery
  | LocationFieldsQuery
  | LocationNameQuery string string string
  | CohortsQuery
  | TenantRoleQuery
  | AttendanceQuery
  | CohortSummaryQuery
  | ScoreDetailsQuery
  | AssessmentQuery
  | UserCourseDataQuery
  | DistinctCourseIdQuery

type_synonym sourceClient = "query \<Rightarrow> jsval list \<Rightarrow> exn + jsobj list"

text \<open>
  The HTTP client answers a request for a course identifier with a response object, or
  throws (network failure, status outside 2xx).
\<close>

type_synonym httpClient = "jsval \<Rightarrow> exn + jsval"

text \<open>
  A destination table is the list of its rows, a row the list of its columns with their
  cells. A cell keeps the value the driver was given for it. \<open>NULL\<close> is \<open>JNull\<close>. The
  driver sends \<open>undefined\<close> as \<open>NULL\<close>. A comparison with \<open>NULL\<close> is never true. The
  tables that are written by delete and insert carry no uniqueness constraint, so a table
  may hold several rows with one key.
\<close>

type_synonym row = "(string \<times> jsval) list"

type_synonym table = "row list"

definition cell :: "row \<Rightarrow> string \<Rightarrow> jsval" where
  "cell r c = (case map_of r c of None \<Rightarrow> JNull | Some v \<Rightarrow> v)"

definition prepareValue :: "jsval \<Rightarrow> jsval" where
  "prepareValue v = (if v = JUndefined then JNull else v)"

definition sqlEq :: "jsval \<Rightarrow> jsval \<Rightarrow> bool" where
  "sqlEq a b = (\<not> a = JNull \<and> \<not> b = JNull \<and> a = b)"

text \<open>\<open>$n\<close> in a statement.\<close>

definition param :: "jsval list \<Rightarrow> nat \<Rightarrow> jsval" where
  "param params n = (if 0 < n \<and> n \<le> length params then params ! (n - 1) else JNull)"

text \<open>\<open>DELETE FROM t WHERE keyColumn = $1\<close>.\<close>

definition sqlDelete :: "string \<Rightarrow> jsval list \<Rightarrow> table \<Rightarrow> table" where
  "sqlDelete keyColumn params t =
     filter (\<lambda>r. \<not> sqlEq (cell r keyColumn) (param params 1)) t"

text \<open>\<open>INSERT INTO t (columns) VALUES ($1, ..., $n)\<close>.\<close>

definition sqlInsert :: "string list \<Rightarrow> jsval list \<Rightarrow> table \<Rightarrow> table" where
  "sqlInsert columns params t = t @ [zip columns params]"

text \<open>
  \<open>INSERT ... ON CONFLICT (keyColumn) DO UPDATE SET c = e, ...\<close>. The right-hand side of
  an assignment is a parameter \<open>$n\<close> or a column of the row proposed for insertion
  (\<open>EXCLUDED.c\<close>). A column without an assignment keeps the cell of the existing row.
\<close>

datatype setExpr = Param nat | Excluded string

fun evalSet :: "row \<Rightarrow> jsval list \<Rightarrow> setExpr \<Rightarrow> jsval" where
  "evalSet excluded params (Param n) = param params n"
| "evalSet excluded params (Excluded c) = cell excluded c"

definition onConflictUpdate ::
  "(string \<times> setExpr) list \<Rightarrow> row \<Rightarrow> jsval list \<Rightarrow> row \<Rightarrow> row" where
  "onConflictUpdate sets excluded params existing =
     map (\<lambda>p. (fst p, case map_of sets (fst p) of
                         None \<Rightarrow> snd p
                       | Some e \<Rightarrow> evalSet excluded params e)) existing"

definition sqlUpsert ::
  "string \<Rightarrow> string list \<Rightarrow> (string \<times> setExpr) list \<Rightarrow> jsval list \<Rightarrow> table \<Rightarrow> table" where
  "sqlUpsert keyColumn columns sets params t =
     (let excluded = zip columns params;
          conflicts = (\<lambda>r. sqlEq (cell r keyColumn) (cell excluded keyColumn))
      in if list_ex conflicts t
         then map (\<lambda>r. if conflicts r then onConflictUpdate sets excluded params r else r) t
         else t @ [excluded])"

text \<open>
  The destination client refuses some statements (a constraint of the table, a value of
  the wrong type, a lost connection): \<open>refuses\<close> tells which parameter lists. A refused
  statement throws and changes nothing; the statements before it stay done, as no
  transaction is opened. A step of the migration returns the exception it threw, if any,
  and the table it left. Console output is not part of the state: of a \<open>catch\<close> that only
  logs, the model keeps that the run goes on.
\<close>

type_synonym destClient = "jsval list \<Rightarrow> bool"

type_synonym outcome = "exn option \<times> table"

definition destQuery ::
  "destClient \<Rightarrow> (jsval list \<Rightarrow> table \<Rightarrow> table) \<Rightarrow> jsval list \<Rightarrow> table \<Rightarrow> outcome" where
  "destQuery refuses statement vals t =
     (let params = map prepareValue vals in
      if refuses params then (Some QueryError, t) else (None, statement params t))"

definition andThen :: "outcome \<Rightarrow> (table \<Rightarrow> outcome) \<Rightarrow> outcome" where
  "andThen r next = (case fst r of None \<Rightarrow> next (snd r) | Some e \<Rightarrow> r)"

text \<open>\<open>try { ... } catch (error) { console.error(...) }\<close> around a step.\<close>

definition catchAndLog :: "outcome \<Rightarrow> outcome" where
  "catchAndLog r = (None, snd r)"

text \<open>\<open>for (const x of rows) { await body(x) }\<close>: an exception leaves the loop.\<close>

fun forRows :: "('r \<Rightarrow> table \<Rightarrow> outcome) \<Rightarrow> 'r list \<Rightarrow> table \<Rightarrow> outcome" where
  "forRows body [] t = (None, t)"
| "forRows body (x # xs) t =
     (case fst (body x t) of
        None \<Rightarrow> forRows body xs (snd (body x t))
      | Some e \<Rightarrow> body x t)"

section \<open>Enrichment resolvers\<close>

text \<open>\<open>safeQuery\<close> (UserProfileReport.js).\<close>

definition safeQuery ::
  "sourceClient \<Rightarrow> query \<Rightarrow> jsval list \<Rightarrow> jsobj list \<Rightarrow> exn + jsobj list" where
  "safeQuery client q params defaultValue =
     tryCatch (bind (client q params) (\<lambda>rows. Inr rows)) (\<lambda>error. Inr defaultValue)"

definition getCustomFields :: "sourceClient \<Rightarrow> jsval \<Rightarrow> exn + jsobj" where
  "getCustomFields client userId =
     bind (safeQuery client CustomFieldsQuery [userId] []) (\<lambda>rows.
       Inr (foldl (\<lambda>customFields r.
                     setProp customFields (toString (field r ''name''))
                       (JObj [(''type'', field r ''type''), (''value'', field r ''value'')]))
                  [] rows))"

definition LOCATION_FIELD_IDS :: "(string \<times> string) list" where
  "LOCATION_FIELD_IDS =
     [(''STATE'', ''6469c3ac-8c46-49d7-852a-00f9589737c5''),
      (''DISTRICT'', ''b61edfc6-3787-4079-86d3-37262bf23a9e''),
      (''BLOCK'', ''4aab68ae-8382-43aa-a45a-e9b239319857''),
      (''VILLAGE'', ''8e9bb321-ff99-4e2e-9269-61e863dd0c54'')]"

definition locationFieldId :: "string \<Rightarrow> jsval" where
  "locationFieldId k = (case map_of LOCATION_FIELD_IDS k of None \<Rightarrow> JUndefined | Some v \<Rightarrow> JStr v)"

definition assignLocation :: "jsobj \<Rightarrow> jsobj \<Rightarrow> jsobj" where
  "assignLocation locations r =
     (if field r ''fieldId'' = locationFieldId ''STATE''
        then setProp locations ''stateId'' (field r ''value'')
      else if field r ''fieldId'' = locationFieldId ''DISTRICT''
        then setProp locations ''districtId'' (field r ''value'')
      else if field r ''fieldId'' = locationFieldId ''BLOCK''
        then setProp locations ''blockId'' (field r ''value'')
      else if field r ''fieldId'' = locationFieldId ''VILLAGE''
        then setProp locations ''villageId'' (field r ''value'')
      else locations)"

text \<open>
  \<open>getUserLocationIds\<close> (UserProfileReport.js); \<open>getCohortLocationIds\<close>
  (CohortSummaryReport.js) is the same function of the cohort identifier.
\<close>

definition getUserLocationIds :: "sourceClient \<Rightarrow> jsval \<Rightarrow> exn + jsobj" where
  "getUserLocationIds client userId =
     bind (safeQuery client LocationFieldsQuery
             [userId, JArr (map (\<lambda>p. JStr (snd p)) LOCATION_FIELD_IDS)] []) (\<lambda>rows.
       Inr (foldl assignLocation
              [(''stateId'', JNull), (''districtId'', JNull),
               (''blockId'', JNull), (''villageId'', JNull)] rows))"

definition getCohortLocationIds :: "sourceClient \<Rightarrow> jsval \<Rightarrow> exn + jsobj" where
  "getCohortLocationIds client cohortId = getUserLocationIds client cohortId"

text \<open>
  \<open>getLocationName\<close> and \<open>getLocationNames\<close>, which UserProfileReport.js and
  CohortSummaryReport.js both define, with the same text. An entry of \<open>locationMappings\<close>
  is a record (its fields \<open>id\<close> and \<open>table\<close> are \<open>mappingId\<close> and \<open>mappingTable\<close>
  here). The four lookups only read, and each writes its own key of the result, so the
  order in which \<open>Promise.all\<close> completes them does not matter: they are taken in the
  order of the list.
\<close>

definition getLocationName ::
  "sourceClient \<Rightarrow> jsval \<Rightarrow> string \<Rightarrow> string \<Rightarrow> string \<Rightarrow> exn + jsval" where
  "getLocationName client ident tableName idColumn nameColumn =
     (if falsy ident then Inr JNull
      else
        let idValue = extractIdFromValue ident in
        if falsy idValue then Inr JNull
        else tryCatch
               (bind (client (LocationNameQuery nameColumn tableName idColumn) [idValue])
                  (\<lambda>rows. Inr (case rows of [] \<Rightarrow> JNull | r # _ \<Rightarrow> field r nameColumn)))
               (\<lambda>e. Inr JNull))"

record locationMapping =
  mappingId :: jsval
  mappingTable :: string
  idCol :: string
  nameCol :: string
  resultKey :: string

fun resolveLocations :: "sourceClient \<Rightarrow> locationMapping list \<Rightarrow> jsobj \<Rightarrow> exn + jsobj" where
  "resolveLocations client [] result = Inr result"
| "resolveLocations client (m # ms) result =
     bind (getLocationName client (mappingId m) (mappingTable m) (idCol m) (nameCol m))
       (\<lambda>name. resolveLocations client ms (setProp result (resultKey m) name))"

definition getLocationNames :: "sourceClient \<Rightarrow> jsobj \<Rightarrow> exn + jsobj" where
  "getLocationNames client locationIds =
     resolveLocations client
       [\<lparr>mappingId = field locationIds ''stateId'', mappingTable = ''state'',
          idCol = ''state_id'', nameCol = ''state_name'', resultKey = ''stateName''\<rparr>,
        \<lparr>mappingId = field locationIds ''districtId'', mappingTable = ''district'',
          idCol = ''district_id'', nameCol = ''district_name'', resultKey = ''districtName''\<rparr>,
        \<lparr>mappingId = field locationIds ''blockId'', mappingTable = ''block'',
          idCol = ''block_id'', nameCol = ''block_name'', resultKey = ''blockName''\<rparr>,
        \<lparr>mappingId = field locationIds ''villageId'', mappingTable = ''village'',
          idCol = ''village_id'', nameCol = ''village_name'', resultKey = ''villageName''\<rparr>]
       [(''stateName'', JNull), (''districtName'', JNull),
        (''blockName'', JNull), (''villageName'', JNull)]"

definition getUserCohorts :: "sourceClient \<Rightarrow> jsval \<Rightarrow> exn + jsobj list" where
  "getUserCohorts client userId =
     bind (safeQuery client CohortsQuery [userId] []) (\<lambda>rows.
       Inr (map (\<lambda>r. [(''cohortId'', field r ''cohortId''),
                       (''cohortName'', field r ''cohortName''),
                       (''cohortType'', field r ''cohortType''),
                       (''tenantId'', field r ''tenantId''),
                       (''cohortMemberStatus'', field r ''cohortMemberStatus''),
                       (''cohortStatus'', field r ''cohortStatus''),
                       (''joinedAt'', field r ''joinedAt'')]) rows))"

definition getUserTenantAndRole :: "sourceClient \<Rightarrow> jsval \<Rightarrow> exn + jsobj" where
  "getUserTenantAndRole client userId =
     bind (safeQuery client TenantRoleQuery [userId] []) (\<lambda>rows.
       case rows of
         r # _ \<Rightarrow>
           Inr [(''tenantId'', field r ''tenantId''), (''tenantName'', field r ''tenantName''),
                (''roleId'', field r ''roleId''), (''roleName'', field r ''roleName''),
                (''roleCode'', field r ''roleCode'')]
       | [] \<Rightarrow>
           Inr [(''tenantId'', JNull), (''tenantName'', JNull), (''roleId'', JNull),
                (''roleName'', JNull), (''roleCode'', JNull)])"

definition determineAutomaticMembership :: "jsobj list \<Rightarrow> bool" where
  "determineAutomaticMembership cohorts =
     (if length cohorts = 0 then False
      else list_ex (\<lambda>cohort. field cohort ''cohortType'' = JStr ''automatic'') cohorts)"

text \<open>\<open>fetchCourseData\<close> (course migration): a GET of the course hierarchy.\<close>

definition fetchCourseData :: "httpClient \<Rightarrow> jsval \<Rightarrow> exn + jsval" where
  "fetchCourseData get courseId =
     (if falsy courseId then Inr (JObj [])
      else
        bind
          (tryCatch
             (bind (get courseId) (\<lambda>response.
              bind (getProp response ''data'') (\<lambda>d.
              bind (getProp d ''result'') (\<lambda>result.
                if falsy result then Inr None
                else bind (getProp result ''content'') (\<lambda>content.
                       if falsy content then Inr None else Inr (Some content))))))
             (\<lambda>error. Inr None))
          (\<lambda>returned. case returned of Some content \<Rightarrow> Inr content | None \<Rightarrow> Inr (JObj [])))"

text \<open>\<open>fetchApiData\<close> (assessment migration): a POST of a search by identifier.\<close>

definition fetchApiData :: "httpClient \<Rightarrow> jsval \<Rightarrow> exn + jsval" where
  "fetchApiData post courseId =
     (if falsy courseId then Inr (JObj [])
      else
        bind
          (tryCatch
             (bind (post courseId) (\<lambda>response.
              bind (getProp response ''data'') (\<lambda>d.
              bind (getProp d ''result'') (\<lambda>result.
              bind (getProp result ''QuestionSet'') (\<lambda>questionSet.
              bind (getElemAt questionSet 0) (\<lambda>first. Inr (Some first)))))))
             (\<lambda>error. Inr None))
          (\<lambda>returned. case returned of Some first \<Rightarrow> Inr first | None \<Rightarrow> Inr (JObj [])))"

section \<open>User profile report (UserProfileReport.js)\<close>

text \<open>
  The extraction query builds \<open>fullName\<close> in SQL, as the concatenation of the first
  name, a space, the middle name, a space and the last name, each name replaced by the
  empty string when it is \<open>NULL\<close> (\<open>COALESCE\<close>). \<open>CONCAT\<close> skips \<open>NULL\<close> arguments.
  The name columns hold text. \<open>usersQueryRow\<close> is the select list of the query, applied
  to one row of the table of users.
\<close>

definition coalesce :: "jsval \<Rightarrow> jsval \<Rightarrow> jsval" where
  "coalesce a b = (if a = JNull then b else a)"

definition sqlText :: "jsval \<Rightarrow> string" where
  "sqlText v = (case v of JNull \<Rightarrow> [] | JStr s \<Rightarrow> s | _ \<Rightarrow> toString v)"

definition sqlConcat :: "jsval list \<Rightarrow> jsval" where
  "sqlConcat args = JStr (concat (map sqlText args))"

definition usersQueryRow :: "row \<Rightarrow> jsobj" where
  "usersQueryRow u =
     [(''userId'', cell u ''userId''),
      (''username'', cell u ''username''),
      (''fullName'', sqlConcat [coalesce (cell u ''firstName'') (JStr []), JStr '' '',
                               coalesce (cell u ''middleName'') (JStr []), JStr '' '',
                               coalesce (cell u ''lastName'') (JStr [])]),
      (''email'', cell u ''email''),
      (''mobile'', cell u ''mobile''),
      (''dob'', cell u ''dob''),
      (''gender'', cell u ''gender''),
      (''status'', cell u ''status''),
      (''createdAt'', cell u ''createdAt''),
      (''updatedAt'', cell u ''updatedAt''),
      (''createdBy'', cell u ''createdBy''),
      (''updatedBy'', cell u ''updatedBy'')]"

definition usersQuery :: "table \<Rightarrow> jsobj list" where
  "usersQuery users = map usersQueryRow users"

definition userProfileReportColumns :: "string list" where
  "userProfileReportColumns =
     [''userId'', ''username'', ''fullName'', ''email'', ''mobile'', ''dob'', ''gender'',
      ''tenantId'', ''tenantName'', ''status'', ''createdAt'', ''updatedAt'',
      ''createdBy'', ''updatedBy'', ''roleId'', ''roleName'', ''customFields'', ''cohorts'',
      ''automaticMember'', ''state'', ''district'', ''block'', ''village'']"

definition userProfileReportSets :: "(string \<times> setExpr) list" where
  "userProfileReportSets =
     [(''username'', Param 2), (''fullName'', Param 3), (''email'', Param 4),
      (''mobile'', Param 5), (''dob'', Param 6), (''gender'', Param 7),
      (''tenantId'', Param 8), (''tenantName'', Param 9), (''status'', Param 10),
      (''updatedAt'', Param 12), (''updatedBy'', Param 14), (''roleId'', Param 15),
      (''roleName'', Param 16), (''customFields'', Param 17), (''cohorts'', Param 18),
      (''automaticMember'', Param 19), (''state'', Param 20), (''district'', Param 21),
      (''block'', Param 22), (''village'', Param 23)]"

definition userProfileReportValues :: "jsobj \<Rightarrow> jsval list" where
  "userProfileReportValues userData =
     [field userData ''userId'', field userData ''username'', field userData ''fullName'',
      field userData ''email'', field userData ''mobile'', field userData ''dob'',
      field userData ''gender'', field userData ''tenantId'', field userData ''tenantName'',
      field userData ''status'', field userData ''createdAt'', field userData ''updatedAt'',
      field userData ''createdBy'', field userData ''updatedBy'', field userData ''roleId'',
      field userData ''roleName'',
      JSON_stringify (field userData ''customFields''),
      JSON_stringify (field userData ''cohorts''),
      field userData ''automaticMember'', field userData ''state'',
      field userData ''district'', field userData ''block'', field userData ''village'']"

definition insertOrUpdateUserProfileReport :: "destClient \<Rightarrow> jsobj \<Rightarrow> table \<Rightarrow> outcome" where
  "insertOrUpdateUserProfileReport refuses userData t =
     destQuery refuses (sqlUpsert ''userId'' userProfileReportColumns userProfileReportSets)
       (userProfileReportValues userData) t"

definition processUser :: "sourceClient \<Rightarrow> destClient \<Rightarrow> jsobj \<Rightarrow> table \<Rightarrow> outcome" where
  "processUser sourceClient refuses user t =
     (case
        bind (getCustomFields sourceClient (field user ''userId'')) (\<lambda>customFields.
        bind (getUserLocationIds sourceClient (field user ''userId'')) (\<lambda>locationIds.
        bind (getLocationNames sourceClient locationIds) (\<lambda>locationNames.
        bind (getUserCohorts sourceClient (field user ''userId'')) (\<lambda>cohorts.
        bind (getUserTenantAndRole sourceClient (field user ''userId'')) (\<lambda>tenantAndRole.
        bind (callTrim (field user ''fullName'')) (\<lambda>fullName.
          Inr [(''userId'', field user ''userId''),
               (''username'', field user ''username''),
               (''fullName'', fullName),
               (''email'', js_or (field user ''email'') JNull),
               (''mobile'', js_or (field user ''mobile'') JNull),
               (''dob'', js_or (field user ''dob'') JNull),
               (''gender'', js_or (field user ''gender'') JNull),
               (''tenantId'', field tenantAndRole ''tenantId''),
               (''tenantName'', field tenantAndRole ''tenantName''),
               (''status'', field user ''status''),
               (''createdAt'', field user ''createdAt''),
               (''updatedAt'', field user ''updatedAt''),
               (''createdBy'', field user ''createdBy''),
               (''updatedBy'', field user ''updatedBy''),
               (''roleName'', field tenantAndRole ''roleName''),
               (''roleId'', field tenantAndRole ''roleId''),
               (''customFields'', JObj customFields),
               (''cohorts'', JArr (map JObj cohorts)),
               (''automaticMember'',
                  JNum (if determineAutomaticMembership cohorts then 1 else 0)),
               (''state'', field locationNames ''stateName''),
               (''district'', field locationNames ''districtName''),
               (''block'', field locationNames ''blockName''),
               (''village'', field locationNames ''villageName'')]))))))
      of
        Inl e \<Rightarrow> (Some e, t)
      | Inr userData \<Rightarrow> insertOrUpdateUserProfileReport refuses userData t)"

text \<open>
  \<open>migrateUserProfileReports\<close>, with both connections open and the report table created.
  The first component of the result is the error that the \<open>catch\<close> around the whole run
  logged, if any.
\<close>

definition migrateUserProfileReports :: "sourceClient \<Rightarrow> destClient \<Rightarrow> table \<Rightarrow> outcome" where
  "migrateUserProfileReports sourceClient refuses t =
     (case sourceClient UsersQuery [] of
        Inl e \<Rightarrow> (Some e, t)
      | Inr rows \<Rightarrow> forRows (processUser sourceClient refuses) rows t)"

section \<open>Daily attendance report (AttendanceReport.js)\<close>

definition attendanceColumns :: "string list" where
  "attendanceColumns =
     [''attendanceId'', ''userId'', ''cohortId'', ''context'', ''date'', ''status'',
      ''metadata'', ''createdAt'', ''updatedAt'', ''createdBy'', ''updatedBy'']"

definition attendanceSets :: "(string \<times> setExpr) list" where
  "attendanceSets =
     [(''userId'', Excluded ''userId''), (''cohortId'', Excluded ''cohortId''),
      (''context'', Excluded ''context''), (''date'', Excluded ''date''),
      (''status'', Excluded ''status''), (''metadata'', Excluded ''metadata''),
      (''updatedAt'', Excluded ''updatedAt''), (''updatedBy'', Excluded ''updatedBy'')]"

definition attendanceValues :: "jsobj \<Rightarrow> jsval list" where
  "attendanceValues attendance =
     [field attendance ''attendanceId'', field attendance ''userId'',
      field attendance ''contextId'', field attendance ''context'',
      field attendance ''attendanceDate'', field attendance ''attendance'',
      field attendance ''metaData'', field attendance ''createdAt'',
      field attendance ''updatedAt'', field attendance ''createdBy'',
      field attendance ''updatedBy'']"

definition processAttendance :: "destClient \<Rightarrow> jsobj \<Rightarrow> table \<Rightarrow> outcome" where
  "processAttendance refuses attendance t =
     catchAndLog
       (destQuery refuses (sqlUpsert ''attendanceId'' attendanceColumns attendanceSets)
          (attendanceValues attendance) t)"

definition migrateAttendanceReports :: "sourceClient \<Rightarrow> destClient \<Rightarrow> table \<Rightarrow> outcome" where
  "migrateAttendanceReports sourceClient refuses t =
     (case sourceClient AttendanceQuery [] of
        Inl e \<Rightarrow> (Some e, t)
      | Inr rows \<Rightarrow> forRows (processAttendance refuses) rows t)"

section \<open>Cohort summary report (CohortSummaryReport.js)\<close>

definition cohortColumns :: "string list" where
  "cohortColumns =
     [''cohortId'', ''name'', ''type'', ''tenantId'', ''tenantName'', ''academicYear'',
      ''memberCount'', ''customFields'', ''createdAt'', ''updatedAt'',
      ''state'', ''district'', ''block'', ''village'']"

definition cohortSets :: "(string \<times> setExpr) list" where
  "cohortSets =
     [(''name'', Excluded ''name''), (''type'', Excluded ''type''),
      (''tenantId'', Excluded ''tenantId''), (''tenantName'', Excluded ''tenantName''),
      (''academicYear'', Excluded ''academicYear''), (''memberCount'', Excluded ''memberCount''),
      (''customFields'', Excluded ''customFields''), (''updatedAt'', Excluded ''updatedAt''),
      (''state'', Excluded ''state''), (''district'', Excluded ''district''),
      (''block'', Excluded ''block''), (''village'', Excluded ''village'')]"

definition processCohort :: "sourceClient \<Rightarrow> destClient \<Rightarrow> jsobj \<Rightarrow> table \<Rightarrow> outcome" where
  "processCohort sourceClient refuses cohort t =
     catchAndLog
       (case
          bind (getCustomFields sourceClient (field cohort ''cohortId'')) (\<lambda>customFields.
          bind (getCohortLocationIds sourceClient (field cohort ''cohortId'')) (\<lambda>locationIds.
          bind (getLocationNames sourceClient locationIds) (\<lambda>locationNames.
            Inr [field cohort ''cohortId'', field cohort ''name'', field cohort ''type'',
                 field cohort ''tenantId'', field cohort ''tenantName'',
                 field cohort ''academicYear'', field cohort ''memberCount'',
                 JSON_stringify (JObj customFields),
                 field cohort ''createdAt'', field cohort ''updatedAt'',
                 field locationNames ''stateName'', field locationNames ''districtName'',
                 field locationNames ''blockName'', field locationNames ''villageName''])))
        of
          Inl e \<Rightarrow> (Some e, t)
        | Inr vals \<Rightarrow> destQuery refuses (sqlUpsert ''cohortId'' cohortColumns cohortSets) vals t)"

definition migrateCohortSummaryReports :: "sourceClient \<Rightarrow> destClient \<Rightarrow> table \<Rightarrow> outcome" where
  "migrateCohortSummaryReports sourceClient refuses t =
     (case sourceClient CohortSummaryQuery [] of
        Inl e \<Rightarrow> (Some e, t)
      | Inr rows \<Rightarrow> forRows (processCohort sourceClient refuses) rows t)"

section \<open>Course migration\<close>

text \<open>\<open>mapContentToCourseEntity\<close>: the transformer of the course pipeline.\<close>

definition mapContentToCourseEntity :: "jsval \<Rightarrow> exn + jsobj" where
  "mapContentToCourseEntity content =
     (if isNullish content then Inl TypeError
      else Inr [(''courseDoId'', property content ''identifier''),
                (''courseName'', property content ''name''),
                (''channel'', property content ''channel''),
                (''language'', js_or (property content ''language'') (JArr [])),
                (''program'', js_or (property content ''program'') (JArr [])),
                (''primaryUser'', js_or (property content ''primaryUser'') (JArr [])),
                (''targetAgeGroup'', js_or (property content ''targetAgeGroup'') (JArr [])),
                (''keywords'', js_or (property content ''keywords'') (JArr [])),
                (''details'', content)])"

definition userCourseDataColumns :: "string list" where
  "userCourseDataColumns =
     [''usercertificateId'', ''userId'', ''courseId'', ''certificateId'', ''tenantId'',
      ''status'', ''issuedOn'', ''createdOn'', ''updatedOn'', ''completedOn'',
      ''completionPercentage'', ''progress'', ''lastReadContentId'',
      ''lastReadContentStatus'', ''createdBy'']"

text \<open>The body of the loop of \<open>migrateUserCourseDataTable\<close>: delete by key, then insert.
  The \<open>values\<close> array names the properties of the record in the order of the columns.\<close>

definition writeUserCourseData :: "destClient \<Rightarrow> jsobj \<Rightarrow> table \<Rightarrow> outcome" where
  "writeUserCourseData refuses userCourseData t =
     andThen
       (destQuery refuses (sqlDelete ''usercertificateId'')
          [field userCourseData ''usercertificateId''] t)
       (destQuery refuses (sqlInsert userCourseDataColumns)
          (map (field userCourseData) userCourseDataColumns))"

definition migrateUserCourseDataTable :: "sourceClient \<Rightarrow> destClient \<Rightarrow> table \<Rightarrow> outcome" where
  "migrateUserCourseDataTable sourceClient refuses t =
     (case sourceClient UserCourseDataQuery [] of
        Inl e \<Rightarrow> (Some e, t)
      | Inr rows \<Rightarrow> forRows (writeUserCourseData refuses) rows t)"

definition courseColumns :: "string list" where
  "courseColumns =
     [''course_do_id'', ''course_name'', ''channel'', ''language'', ''program'',
      ''primary_user'', ''target_age_group'', ''keywords'', ''details'']"

text \<open>\<open>x ? JSON.stringify(x) : null\<close>.\<close>

definition stringifyOrNull :: "jsval \<Rightarrow> jsval" where
  "stringifyOrNull x = (if falsy x then JNull else JSON_stringify x)"

text \<open>The body of the loop of \<open>migrateCourseTable\<close>.\<close>

definition migrateCourseRow :: "httpClient \<Rightarrow> destClient \<Rightarrow> jsobj \<Rightarrow> table \<Rightarrow> outcome" where
  "migrateCourseRow get refuses courseRow t =
     (case bind (fetchCourseData get (field courseRow ''courseId'')) mapContentToCourseEntity of
        Inl e \<Rightarrow> (Some e, t)
      | Inr transformedData \<Rightarrow>
          andThen
            (destQuery refuses (sqlDelete ''course_do_id'')
               [field transformedData ''courseDoId''] t)
            (destQuery refuses (sqlInsert courseColumns)
               [field transformedData ''courseDoId'',
                field transformedData ''courseName'',
                field transformedData ''channel'',
                stringifyOrNull (field transformedData ''language''),
                stringifyOrNull (field transformedData ''program''),
                stringifyOrNull (field transformedData ''primaryUser''),
                stringifyOrNull (field transformedData ''targetAgeGroup''),
                stringifyOrNull (field transformedData ''keywords''),
                stringifyOrNull (field transformedData ''details'')]))"

definition migrateCourseTable ::
  "sourceClient \<Rightarrow> httpClient \<Rightarrow> destClient \<Rightarrow> table \<Rightarrow> outcome" where
  "migrateCourseTable sourceClient get refuses t =
     (case sourceClient DistinctCourseIdQuery [] of
        Inl e \<Rightarrow> (Some e, t)
      | Inr rows \<Rightarrow> forRows (migrateCourseRow get refuses) rows t)"

section \<open>Assessment migration\<close>

definition scoreDetailColumns :: "string list" where
  "scoreDetailColumns =
     [''id'', ''userId'', ''assessmentTrackingId'', ''questionId'', ''pass'', ''sectionId'',
      ''resValue'', ''duration'', ''score'', ''maxScore'', ''queTitle'']"

text \<open>The body of the loop of \<open>migrateScoreDetailsTable\<close>: delete by key, then insert.
  The \<open>values\<close> array names the properties of the record in the order of the columns.\<close>

definition writeScoreDetail :: "destClient \<Rightarrow> jsobj \<Rightarrow> table \<Rightarrow> outcome" where
  "writeScoreDetail refuses detail t =
     andThen
       (destQuery refuses (sqlDelete ''id'') [field detail ''id''] t)
       (destQuery refuses (sqlInsert scoreDetailColumns)
          (map (field detail) scoreDetailColumns))"

definition migrateScoreDetailsTable :: "sourceClient \<Rightarrow> destClient \<Rightarrow> table \<Rightarrow> outcome" where
  "migrateScoreDetailsTable sourceClient refuses t =
     (case sourceClient ScoreDetailsQuery [] of
        Inl e \<Rightarrow> (Some e, t)
      | Inr rows \<Rightarrow> forRows (writeScoreDetail refuses) rows t)"

definition assessmentColumns :: "string list" where
  "assessmentColumns =
     [''assessmentTrackingId'', ''userId'', ''courseId'', ''contentId'', ''attemptId'',
      ''createdOn'', ''lastAttemptedOn'', ''assessmentSummary'', ''totalMaxScore'',
      ''totalScore'', ''updatedOn'', ''timeSpent'', ''unitId'', ''name'', ''description'',
      ''subject'', ''domain'', ''subDomain'', ''channel'', ''assessmentType'', ''program'',
      ''targetAgeGroup'', ''assessmentName'', ''contentLanguage'', ''status'', ''framework'',
      ''summaryType'']"

definition assessmentSets :: "(string \<times> setExpr) list" where
  "assessmentSets =
     map (\<lambda>c. (c, Excluded c))
       [''userId'', ''courseId'', ''contentId'', ''attemptId'', ''lastAttemptedOn'',
        ''assessmentSummary'', ''totalMaxScore'', ''totalScore'', ''updatedOn'',
        ''timeSpent'', ''unitId'', ''name'', ''description'', ''subject'', ''domain'',
        ''subDomain'', ''channel'', ''assessmentType'', ''program'', ''targetAgeGroup'',
        ''assessmentName'', ''contentLanguage'', ''status'', ''framework'', ''summaryType'']"

text \<open>The \<open>values\<close> array of \<open>migrateAssessmentTrackingTable\<close>: the transformer of the
  assessment pipeline.\<close>

definition assessmentValues :: "jsobj \<Rightarrow> jsval \<Rightarrow> jsval list" where
  "assessmentValues assessment apiData =
     [field assessment ''assessmentTrackingId'', field assessment ''userId'',
      field assessment ''courseId'', field assessment ''contentId'',
      field assessment ''attemptId'', field assessment ''createdOn'',
      field assessment ''lastAttemptedOn'',
      stringifyOrNull (field assessment ''assessmentSummary''),
      field assessment ''totalMaxScore'', field assessment ''totalScore'',
      field assessment ''updatedOn'', field assessment ''timeSpent'',
      field assessment ''unitId'',
      js_or (optProp apiData ''name'') JNull,
      js_or (optProp apiData ''description'') JNull,
      js_or (optElemAt (optProp apiData ''subject'') 0) JNull,
      js_or (optProp apiData ''domain'') JNull,
      js_or (optElemAt (optProp apiData ''subDomain'') 0) JNull,
      js_or (optProp apiData ''channel'') JNull,
      js_or (optProp apiData ''assessmentType'') JNull,
      js_or (optElemAt (optProp apiData ''program'') 0) JNull,
      js_or (optElemAt (optProp apiData ''targetAgeGroup'') 0) JNull,
      js_or (optProp apiData ''name'') JNull,
      js_or (optElemAt (optProp apiData ''language'') 0) JNull,
      js_or (optProp apiData ''status'') JNull,
      js_or (optProp apiData ''framework'') JNull,
      JStr ''assessment_tracking'']"

text \<open>The body of the loop of \<open>migrateAssessmentTrackingTable\<close>.\<close>

definition migrateAssessmentRow :: "httpClient \<Rightarrow> destClient \<Rightarrow> jsobj \<Rightarrow> table \<Rightarrow> outcome" where
  "migrateAssessmentRow post refuses assessment t =
     (case fetchApiData post (field assessment ''courseId'') of
        Inl e \<Rightarrow> (Some e, t)
      | Inr apiData \<Rightarrow>
          destQuery refuses (sqlUpsert ''assessmentTrackingId'' assessmentColumns assessmentSets)
            (assessmentValues assessment apiData) t)"

definition migrateAssessmentTrackingTable ::
  "sourceClient \<Rightarrow> httpClient \<Rightarrow> destClient \<Rightarrow> table \<Rightarrow> outcome" where
  "migrateAssessmentTrackingTable sourceClient post refuses t =
     (case sourceClient AssessmentQuery [] of
        Inl e \<Rightarrow> (Some e, t)
      | Inr rows \<Rightarrow> forRows (migrateAssessmentRow post refuses) rows t)"

section \<open>Example inputs\<close>

text \<open>A destination that refuses nothing, and one that refuses every statement whose first
  parameter is a given key.\<close>

definition acceptsAll :: destClient where
  "acceptsAll params = False"

definition refusesKey :: "jsval \<Rightarrow> destClient" where
  "refusesKey k params = (param params 1 = k)"

text \<open>A source with two users and no attribute, cohort, tenant or role rows.\<close>

definition ashaRao :: row where
  "ashaRao =
     [(''userId'', JStr ''u1''), (''username'', JStr ''asha''),
      (''firstName'', JStr ''Asha''), (''middleName'', JStr []),
      (''lastName'', JStr ''Rao''), (''status'', JStr ''active'')]"

definition raviKumar :: row where
  "raviKumar =
     [(''userId'', JStr ''u2''), (''username'', JStr ''ravi''),
      (''firstName'', JStr ''Ravi''), (''lastName'', JStr ''Kumar''),
      (''status'', JStr ''active'')]"

definition twoUsers :: sourceClient where
  "twoUsers q params =
     (if q = UsersQuery then Inr (usersQuery [ashaRao, raviKumar]) else Inr [])"

text \<open>A source with two attendance records.\<close>

definition twoAttendances :: sourceClient where
  "twoAttendances q params =
     (if q = AttendanceQuery
      then Inr [[(''attendanceId'', JStr ''a1''), (''userId'', JStr ''u1''),
                 (''attendance'', JStr ''present'')],
                [(''attendanceId'', JStr ''a2''), (''userId'', JStr ''u2''),
                 (''attendance'', JStr ''absent'')]]
      else Inr [])"

text \<open>A source with one course, a request that fails, and a response without payload.\<close>

definition oneCourse :: sourceClient where
  "oneCourse q params =
     (if q = DistinctCourseIdQuery then Inr [[(''courseId'', JStr ''do_1'')]] else Inr [])"

definition noContent :: httpClient where
  "noContent courseId = Inl RequestError"

definition emptyPayload :: httpClient where
  "emptyPayload courseId = Inr (JObj [(''data'', JObj [])])"

text \<open>Two versions of the record of one user.\<close>

definition profileV1 :: jsobj where
  "profileV1 =
     [(''userId'', JStr ''u1''), (''username'', JStr ''asha''),
      (''createdAt'', JStr ''2020-01-01''), (''updatedAt'', JStr ''2020-01-01''),
      (''createdBy'', JStr ''admin''), (''updatedBy'', JStr ''admin'')]"

definition profileV2 :: jsobj where
  "profileV2 =
     [(''userId'', JStr ''u1''), (''username'', JStr ''asha.rao''),
      (''createdAt'', JStr ''2024-06-01''), (''updatedAt'', JStr ''2024-06-01''),
      (''createdBy'', JStr ''importer''), (''updatedBy'', JStr ''importer'')]"

text \<open>A source with two assessment records of one course.\<close>

definition twoAssessments :: sourceClient where
  "twoAssessments q params =
     (if q = AssessmentQuery
      then Inr [[(''assessmentTrackingId'', JStr ''t1''), (''courseId'', JStr ''do_1'')],
                [(''assessmentTrackingId'', JStr ''t2''), (''courseId'', JStr ''do_1'')]]
      else Inr [])"

text \<open>A source with one user who has a last name only.\<close>

definition onlyLastName :: sourceClient where
  "onlyLastName q params =
     (if q = UsersQuery
      then Inr (usersQuery
                  [[(''userId'', JStr ''u3''), (''username'', JStr ''rao''),
                    (''firstName'', JNull), (''middleName'', JNull),
                    (''lastName'', JStr ''Rao''), (''status'', JStr ''active'')]])
      else Inr [])"

section \<open>Unfolding rules\<close>

lemmas string_defs =
  trim_def trimStart_def trimEnd_def isWhiteSpace_def isDigit_def isHexDigit_def
  isOctalDigit_def isBinaryDigit_def digitValue_def digitsToNat_def stripSign_def
  allDigits_def exponentPart_def strUnsignedDecimalLiteral_def nonDecimalIntegerLiteral_def
  isNaN_def parseInt_def matchDigits_def Let_def

lemmas extract_defs = extractIdFromValue_def arrayBranch_def stringBranch_def

lemmas exn_defs = bind_def tryCatch_def getProp_def getElemAt_def callTrim_def

lemmas sql_defs =
  cell_def prepareValue_def sqlEq_def param_def sqlDelete_def sqlInsert_def
  onConflictUpdate_def sqlUpsert_def destQuery_def andThen_def catchAndLog_def

lemmas resolver_defs =
  safeQuery_def getCustomFields_def getUserLocationIds_def getCohortLocationIds_def
  getLocationName_def getLocationNames_def getUserCohorts_def getUserTenantAndRole_def
  determineAutomaticMembership_def fetchCourseData_def fetchApiData_def
  assignLocation_def locationFieldId_def LOCATION_FIELD_IDS_def

lemmas json_defs =
  JSON_stringify_def quoteJSONString_def escapeChar_def showInt_def digitChar_def
  hexChar_def stringifyOrNull_def

lemmas userProfile_defs =
  migrateUserProfileReports_def usersQuery_def usersQueryRow_def processUser_def
  insertOrUpdateUserProfileReport_def userProfileReportValues_def
  userProfileReportColumns_def userProfileReportSets_def sqlConcat_def sqlText_def
  coalesce_def field_def js_or_def isNullish_def

section \<open>The field extractor\<close>

lemma typeof_parseInt: "typeof (parseInt s) = ''number''"
  by (simp add: parseInt_def Let_def)

text \<open>
  C2: the extractor maps the five reference inputs as listed: the number 42, the array
  [42], the braced string "{42}" and the numeric string "42" all give 42, and the string
  "abc" gives null.
\<close>

theorem extractIdFromValue_reference_inputs:
  "extractIdFromValue (JNum 42) = JNum 42 \<and>
   extractIdFromValue (JArr [JNum 42]) = JNum 42 \<and>
   extractIdFromValue (JStr ''{42}'') = JNum 42 \<and>
   extractIdFromValue (JStr ''42'') = JNum 42 \<and>
   extractIdFromValue (JStr ''abc'') = JNull"
  by (simp add: extract_defs string_defs)

text \<open>
  C10: every falsy input (null, undefined, false, the empty string, the number 0, and also
  NaN) gives null before any analysis of its shape; in particular the identifier 0 gives
  null and not 0.
\<close>

theorem extractIdFromValue_falsy:
  "falsy val \<Longrightarrow> extractIdFromValue val = JNull"
  by (simp add: extractIdFromValue_def)

theorem extractIdFromValue_falsy_witness:
  "extractIdFromValue JNull = JNull \<and> extractIdFromValue JUndefined = JNull \<and>
   extractIdFromValue (JBool False) = JNull \<and> extractIdFromValue (JStr []) = JNull \<and>
   extractIdFromValue (JNum 0) = JNull"
  using extractIdFromValue_falsy [of JNull] extractIdFromValue_falsy [of JUndefined]
    extractIdFromValue_falsy [of "JBool False"] extractIdFromValue_falsy [of "JStr []"]
    extractIdFromValue_falsy [of "JNum 0"]
  by simp

text \<open>
  C7, as stated, fails: the number -5 is returned as it is, which is neither a positive
  integer nor null, and the number 0 is not returned unchanged.
\<close>

theorem extractIdFromValue_not_positive_counterexample:
  "extractIdFromValue (JNum (- 5)) = JNum (- 5) \<and>
   \<not> positiveIntegerOrNull (extractIdFromValue (JNum (- 5))) \<and>
   extractIdFromValue (JNum 0) = JNull"
  by (simp add: extractIdFromValue_def)

text \<open>
  C7, amended: for every input the extractor returns a number or null, and every input that
  is a number other than 0 and NaN is returned unchanged.
\<close>

theorem extractIdFromValue_number_or_null:
  "(typeof (extractIdFromValue val) = ''number'' \<or> extractIdFromValue val = JNull) \<and>
   (typeof val = ''number'' \<and> \<not> falsy val \<longrightarrow> extractIdFromValue val = val)"
  by (auto simp: extract_defs typeof_parseInt split: jsval.splits list.splits option.splits)

theorem extractIdFromValue_number_or_null_witness:
  "typeof (JNum (- 5)) = ''number'' \<and> \<not> falsy (JNum (- 5)) \<and>
   extractIdFromValue (JNum (- 5)) = JNum (- 5)"
  using extractIdFromValue_number_or_null [of "JNum (- 5)"] by simp

text \<open>Results that are numbers without being positive integers also come from arrays and
  strings.\<close>

lemma extractIdFromValue_other_results:
  "extractIdFromValue (JArr [JStr ''-42'']) = JNum (- 42) \<and>
   extractIdFromValue (JStr ''id-0'') = JNum 0 \<and>
   extractIdFromValue (JArr [JStr []]) = JNaN \<and>
   extractIdFromValue (JStr ''Infinity'') = JNaN"
  by (simp add: extract_defs string_defs)

section \<open>Full name\<close>

lemma dropWhile_unchanged:
  "xs \<noteq> [] \<Longrightarrow> \<not> P (hd xs) \<Longrightarrow> dropWhile P xs = xs"
  by (cases xs) auto


lemma trim_unchanged:
  assumes "s \<noteq> []" "\<not> isWhiteSpace (hd s)" "\<not> isWhiteSpace (last s)"
  shows "trim s = s"
proof -
  have a: "dropWhile isWhiteSpace s = s"
    using assms by (simp add: dropWhile_unchanged)
  have "rev s \<noteq> []" "hd (rev s) = last s"
    using assms by (simp_all add: hd_rev)
  then have "dropWhile isWhiteSpace (rev s) = rev s"
    using assms by (simp add: dropWhile_unchanged)
  with a show ?thesis
    by (simp add: trim_def trimStart_def trimEnd_def)
qed








section \<open>Enrichment resolvers\<close>

lemma safeQuery_cases:
  "safeQuery client q params d =
     (case client q params of Inl e \<Rightarrow> Inr d | Inr rows \<Rightarrow> Inr rows)"
  by (simp add: safeQuery_def tryCatch_def bind_def split: sum.splits)

lemma getLocationName_total:
  "\<exists>r. getLocationName client ident tableName idColumn nameColumn = Inr r"
  by (simp add: getLocationName_def tryCatch_def bind_def Let_def split: sum.splits)

lemma resolveLocations_total: "\<exists>r. resolveLocations client ms result = Inr r"
proof (induction ms arbitrary: result)
  case Nil
  show ?case by simp
next
  case (Cons m ms)
  obtain name where
    "getLocationName client (mappingId m) (mappingTable m) (idCol m) (nameCol m) = Inr name"
    using getLocationName_total by blast
  with Cons show ?case by (simp add: bind_def)
qed

lemma falsy_property: "falsy v \<Longrightarrow> falsy (property v k)"
  by (cases v) (simp_all add: field_def)

lemma fetchApiData_cases:
  "fetchApiData post courseId =
     (if falsy courseId then Inr (JObj [])
      else case post courseId of
         Inl e \<Rightarrow> Inr (JObj [])
       | Inr response \<Rightarrow>
           (if isNullish
                 (optProp (optProp (optProp response ''data'') ''result'') ''QuestionSet'')
            then Inr (JObj [])
            else Inr (elemAt
                   (property (property (property response ''data'') ''result'') ''QuestionSet'')
                   0)))"
  by (auto simp: fetchApiData_def tryCatch_def bind_def getProp_def getElemAt_def optProp_def
      isNullish_def split: sum.splits)

lemma fetchCourseData_cases:
  "fetchCourseData get courseId =
     (if falsy courseId then Inr (JObj [])
      else case get courseId of
         Inl e \<Rightarrow> Inr (JObj [])
       | Inr response \<Rightarrow>
           (if falsy (optProp (optProp (optProp response ''data'') ''result'') ''content'')
            then Inr (JObj [])
            else Inr (property (property (property response ''data'') ''result'') ''content'')))"
  by (auto simp: fetchCourseData_def tryCatch_def bind_def getProp_def optProp_def
      isNullish_def split: sum.splits dest: falsy_property)

text \<open>
  C6: every enrichment resolver returns to its caller for every lookup key and never
  throws. A query error gives the default rows; a failed request (network failure, status
  outside 2xx) and a response that lacks the payload field give the empty object.
\<close>

theorem resolvers_never_throw:
  "(\<exists>r. safeQuery client q params defaultValue = Inr r) \<and>
   (failingClient q params = Inl e \<longrightarrow>
      safeQuery failingClient q params defaultValue = Inr defaultValue) \<and>
   (\<exists>r. fetchApiData http courseId = Inr r) \<and>
   (failing courseId = Inl e' \<longrightarrow> fetchApiData failing courseId = Inr (JObj [])) \<and>
   (answering courseId = Inr response \<and>
      optProp (optProp (optProp response ''data'') ''result'') ''QuestionSet'' = JUndefined \<longrightarrow>
      fetchApiData answering courseId = Inr (JObj [])) \<and>
   (\<exists>r. fetchCourseData http courseId = Inr r) \<and>
   (failing courseId = Inl e' \<longrightarrow> fetchCourseData failing courseId = Inr (JObj [])) \<and>
   (answering courseId = Inr response \<and>
      optProp (optProp (optProp response ''data'') ''result'') ''content'' = JUndefined \<longrightarrow>
      fetchCourseData answering courseId = Inr (JObj [])) \<and>
   (\<exists>r. getCustomFields client ident = Inr r) \<and>
   (\<exists>r. getUserLocationIds client ident = Inr r) \<and>
   (\<exists>r. getCohortLocationIds client ident = Inr r) \<and>
   (\<exists>r. getLocationName client ident tableName idColumn nameColumn = Inr r) \<and>
   (\<exists>r. getLocationNames client locationIds = Inr r) \<and>
   (\<exists>r. getUserCohorts client ident = Inr r) \<and>
   (\<exists>r. getUserTenantAndRole client ident = Inr r)"
proof -
  have 1: "\<exists>r. safeQuery client q params defaultValue = Inr r"
    by (simp add: safeQuery_cases split: sum.splits)
  have 2: "failingClient q params = Inl e \<longrightarrow>
      safeQuery failingClient q params defaultValue = Inr defaultValue"
    by (simp add: safeQuery_cases)
  have 3: "\<exists>r. fetchApiData http courseId = Inr r"
    by (simp add: fetchApiData_cases split: sum.splits)
  have 4: "failing courseId = Inl e' \<longrightarrow> fetchApiData failing courseId = Inr (JObj [])"
    by (simp add: fetchApiData_cases)
  have 5: "answering courseId = Inr response \<and>
      optProp (optProp (optProp response ''data'') ''result'') ''QuestionSet'' = JUndefined \<longrightarrow>
      fetchApiData answering courseId = Inr (JObj [])"
    by (simp add: fetchApiData_cases isNullish_def)
  have 6: "\<exists>r. fetchCourseData http courseId = Inr r"
    by (simp add: fetchCourseData_cases split: sum.splits)
  have 7: "failing courseId = Inl e' \<longrightarrow> fetchCourseData failing courseId = Inr (JObj [])"
    by (simp add: fetchCourseData_cases)
  have 8: "answering courseId = Inr response \<and>
      optProp (optProp (optProp response ''data'') ''result'') ''content'' = JUndefined \<longrightarrow>
      fetchCourseData answering courseId = Inr (JObj [])"
    by (simp add: fetchCourseData_cases)
  have 9: "\<exists>r. getCustomFields client ident = Inr r"
    by (simp add: getCustomFields_def safeQuery_cases bind_def split: sum.splits)
  have 10: "\<exists>r. getUserLocationIds client ident = Inr r"
    by (simp add: getUserLocationIds_def safeQuery_cases bind_def split: sum.splits)
  have 11: "\<exists>r. getCohortLocationIds client ident = Inr r"
    using 10 by (simp add: getCohortLocationIds_def)
  have 12: "\<exists>r. getLocationNames client locationIds = Inr r"
    unfolding getLocationNames_def by (rule resolveLocations_total)
  have 13: "\<exists>r. getUserCohorts client ident = Inr r"
    by (simp add: getUserCohorts_def safeQuery_cases bind_def split: sum.splits)
  have 14: "\<exists>r. getUserTenantAndRole client ident = Inr r"
    by (simp add: getUserTenantAndRole_def safeQuery_cases bind_def
        split: sum.splits list.splits)
  show ?thesis
    using 1 2 3 4 5 6 7 8 9 10 11 12 13 14 getLocationName_total by blast
qed

theorem resolvers_never_throw_witness:
  "safeQuery (\<lambda>q params. Inl QueryError) CohortsQuery [JStr ''u1''] [] = Inr [] \<and>
   fetchApiData noContent (JStr ''do_1'') = Inr (JObj []) \<and>
   fetchApiData emptyPayload (JStr ''do_1'') = Inr (JObj []) \<and>
   fetchCourseData noContent (JStr ''do_1'') = Inr (JObj []) \<and>
   fetchCourseData emptyPayload (JStr ''do_1'') = Inr (JObj [])"
  using resolvers_never_throw [where failingClient = "\<lambda>q params. Inl QueryError"
      and q = CohortsQuery and params = "[JStr ''u1'']" and defaultValue = "[]"
      and e = QueryError and failing = noContent and courseId = "JStr ''do_1''"
      and e' = RequestError and answering = emptyPayload
      and response = "JObj [(''data'', JObj [])]"]
  by (simp add: noContent_def emptyPayload_def optProp_def isNullish_def field_def)

text \<open>A search that answers with an empty list of question sets gives \<open>undefined\<close>, which
  the caller reads through optional chaining.\<close>

lemma fetchApiData_empty_QuestionSet:
  "fetchApiData
     (\<lambda>c. Inr (JObj [(''data'', JObj [(''result'', JObj [(''QuestionSet'', JArr [])])])]))
     (JStr ''do_1'') = Inr JUndefined"
  by (simp add: fetchApiData_def exn_defs isNullish_def field_def)

section \<open>Entity transformers\<close>

text \<open>
  C5 fails on the course transformer: for the empty enrichment result, which
  \<open>fetchCourseData\<close> returns whenever the request fails, the fields \<open>courseDoId\<close>,
  \<open>courseName\<close> and \<open>channel\<close> of the transformed record are \<open>undefined\<close>. Only the
  list-shaped fields have a default.
\<close>

theorem mapContentToCourseEntity_empty_undefined:
  "fetchCourseData noContent (JStr ''do_1'') = Inr (JObj []) \<and>
   mapContentToCourseEntity (JObj []) =
     Inr [(''courseDoId'', JUndefined), (''courseName'', JUndefined),
          (''channel'', JUndefined), (''language'', JArr []), (''program'', JArr []),
          (''primaryUser'', JArr []), (''targetAgeGroup'', JArr []), (''keywords'', JArr []),
          (''details'', JObj [])]"
  by (simp add: mapContentToCourseEntity_def isNullish_def field_def js_or_def
      fetchCourseData_def noContent_def exn_defs)

text \<open>The assessment transformer, the sibling of the course transformer, gives every field
  that comes from the enrichment result the default \<open>null\<close>.\<close>

lemma js_or_null_defined: "js_or x JNull \<noteq> JUndefined"
  by (cases x) (simp_all add: js_or_def)

lemma assessmentValues_enrichment_defined:
  "list_all (\<lambda>v. v \<noteq> JUndefined) (drop 13 (assessmentValues assessment apiData))"
  by (simp add: assessmentValues_def js_or_null_defined)

lemma assessmentValues_empty_enrichment:
  "drop 13 (assessmentValues assessment (JObj [])) =
     [JNull, JNull, JNull, JNull, JNull, JNull, JNull, JNull, JNull, JNull, JNull, JNull,
      JNull, JStr ''assessment_tracking'']"
  by (simp add: assessmentValues_def js_or_def optProp_def optElemAt_def isNullish_def
      field_def)

section \<open>Idempotent writers\<close>

subsection \<open>Delete, then insert\<close>

lemma sqlEq_same: "\<not> isNullish k \<Longrightarrow> sqlEq k k"
  by (simp add: sqlEq_def isNullish_def)

lemma prepareValue_key: "\<not> isNullish k \<Longrightarrow> prepareValue k = k"
  by (simp add: prepareValue_def isNullish_def)

lemma filter_sqlDelete:
  "filter (\<lambda>r. sqlEq (cell r c) k) (sqlDelete c [k] t) = []"
  by (induction t) (simp_all add: sqlDelete_def param_def)

lemma sqlDelete_append:
  "sqlDelete c ps (t @ u) = sqlDelete c ps t @ sqlDelete c ps u"
  by (simp add: sqlDelete_def)

lemma writeScoreDetail_accepted:
  "writeScoreDetail acceptsAll detail t =
     (None, sqlDelete ''id'' [prepareValue (field detail ''id'')] t @
            [zip scoreDetailColumns (map (prepareValue \<circ> field detail) scoreDetailColumns)])"
  by (simp add: writeScoreDetail_def destQuery_def andThen_def acceptsAll_def sqlInsert_def)

lemma writeUserCourseData_accepted:
  "writeUserCourseData acceptsAll d t =
     (None, sqlDelete ''usercertificateId'' [prepareValue (field d ''usercertificateId'')] t @
            [zip userCourseDataColumns (map (prepareValue \<circ> field d) userCourseDataColumns)])"
  by (simp add: writeUserCourseData_def destQuery_def andThen_def acceptsAll_def sqlInsert_def)

lemma scoreDetail_key_cell:
  "cell (zip scoreDetailColumns (map (prepareValue \<circ> field d) scoreDetailColumns)) ''id''
     = prepareValue (field d ''id'')"
  by (simp add: scoreDetailColumns_def cell_def)

lemma userCourseData_key_cell:
  "cell (zip userCourseDataColumns (map (prepareValue \<circ> field d) userCourseDataColumns))
     ''usercertificateId'' = prepareValue (field d ''usercertificateId'')"
  by (simp add: userCourseDataColumns_def cell_def)

lemma scoreDetail_written_twice:
  assumes "\<not> isNullish k" "field d1 ''id'' = k" "field d2 ''id'' = k"
  shows "filter (\<lambda>r. sqlEq (cell r ''id'') k)
           (snd (andThen (writeScoreDetail acceptsAll d1 t) (writeScoreDetail acceptsAll d2)))
         = [zip scoreDetailColumns (map (prepareValue \<circ> field d2) scoreDetailColumns)]"
proof -
  have "sqlDelete ''id'' [k]
          [zip scoreDetailColumns (map (prepareValue \<circ> field d1) scoreDetailColumns)] = []"
    using assms
    by (simp add: sqlDelete_def scoreDetail_key_cell param_def sqlEq_same prepareValue_key)
  then show ?thesis
    using assms
    by (simp add: andThen_def writeScoreDetail_accepted sqlDelete_append filter_sqlDelete
        scoreDetail_key_cell sqlEq_same prepareValue_key)
qed

lemma userCourseData_written_twice:
  assumes "\<not> isNullish k" "field c1 ''usercertificateId'' = k"
    "field c2 ''usercertificateId'' = k"
  shows "filter (\<lambda>r. sqlEq (cell r ''usercertificateId'') k)
           (snd (andThen (writeUserCourseData acceptsAll c1 t)
                   (writeUserCourseData acceptsAll c2)))
         = [zip userCourseDataColumns (map (prepareValue \<circ> field c2) userCourseDataColumns)]"
proof -
  have "sqlDelete ''usercertificateId'' [k]
          [zip userCourseDataColumns (map (prepareValue \<circ> field c1) userCourseDataColumns)]
        = []"
    using assms
    by (simp add: sqlDelete_def userCourseData_key_cell param_def sqlEq_same prepareValue_key)
  then show ?thesis
    using assms
    by (simp add: andThen_def writeUserCourseData_accepted sqlDelete_append filter_sqlDelete
        userCourseData_key_cell sqlEq_same prepareValue_key)
qed

text \<open>
  C8: under the delete-then-insert discipline, two writes of records with the same key K
  (a value, not \<open>NULL\<close>) leave, whatever the table held before, exactly one row for K, and
  that row holds the cells of the second record. This holds for the score details and for
  the user course data.
\<close>

theorem delete_then_insert_twice_one_row:
  assumes "\<not> isNullish k"
    and "field d1 ''id'' = k" and "field d2 ''id'' = k"
    and "field c1 ''usercertificateId'' = k" and "field c2 ''usercertificateId'' = k"
  shows "filter (\<lambda>r. sqlEq (cell r ''id'') k)
           (snd (andThen (writeScoreDetail acceptsAll d1 t) (writeScoreDetail acceptsAll d2)))
         = [zip scoreDetailColumns (map (prepareValue \<circ> field d2) scoreDetailColumns)] \<and>
         filter (\<lambda>r. sqlEq (cell r ''usercertificateId'') k)
           (snd (andThen (writeUserCourseData acceptsAll c1 t')
                   (writeUserCourseData acceptsAll c2)))
         = [zip userCourseDataColumns (map (prepareValue \<circ> field c2) userCourseDataColumns)]"
  using assms scoreDetail_written_twice userCourseData_written_twice by blast

theorem delete_then_insert_twice_one_row_witness:
  "filter (\<lambda>r. sqlEq (cell r ''id'') (JStr ''k1''))
     (snd (andThen
        (writeScoreDetail acceptsAll [(''id'', JStr ''k1''), (''score'', JNum 3)]
           [zip scoreDetailColumns (replicate 11 (JStr ''k1''))])
        (writeScoreDetail acceptsAll [(''id'', JStr ''k1''), (''score'', JNum 7)])))
   = [zip scoreDetailColumns
        [JStr ''k1'', JNull, JNull, JNull, JNull, JNull, JNull, JNull, JNum 7, JNull, JNull]]"
  using delete_then_insert_twice_one_row
    [of "JStr ''k1''" "[(''id'', JStr ''k1''), (''score'', JNum 3)]"
      "[(''id'', JStr ''k1''), (''score'', JNum 7)]"
      "[(''usercertificateId'', JStr ''k1'')]" "[(''usercertificateId'', JStr ''k1'')]"
      "[zip scoreDetailColumns (replicate 11 (JStr ''k1''))]" "[]"]
  by (simp add: isNullish_def field_def prepareValue_def scoreDetailColumns_def)

text \<open>With the key \<open>NULL\<close> the delete matches no row, and every write adds one.\<close>

lemma delete_then_insert_null_key:
  "length (snd (andThen (writeScoreDetail acceptsAll [(''id'', JNull)] [])
                  (writeScoreDetail acceptsAll [(''id'', JNull)]))) = 2"
  by (simp add: writeScoreDetail_accepted andThen_def sqlDelete_def sqlEq_def param_def
      prepareValue_def field_def)

subsection \<open>Upsert\<close>

lemma cell_onConflictUpdate:
  "cell (onConflictUpdate sets excluded params existing) c =
     (case map_of existing c of
        None \<Rightarrow> JNull
      | Some v \<Rightarrow> (case map_of sets c of None \<Rightarrow> v | Some e \<Rightarrow> evalSet excluded params e))"
  by (induction existing) (auto simp: onConflictUpdate_def cell_def)

lemma map_of_columns:
  "map fst r = cols \<Longrightarrow> c \<in> set cols \<Longrightarrow> map_of r c = Some (cell r c)"
  by (auto simp: cell_def map_of_eq_None_iff split: option.splits)

lemma sqlUpsert_conflict:
  assumes "sqlEq (cell existing k) (cell (zip cols params) k)"
    and "list_all (\<lambda>r. \<not> sqlEq (cell r k) (cell (zip cols params) k)) (before @ after)"
  shows "sqlUpsert k cols sets params (before @ existing # after) =
           before @ onConflictUpdate sets (zip cols params) params existing # after"
  using assms by (auto simp: sqlUpsert_def Let_def list_all_iff list_ex_iff intro!: map_idI)

lemma sqlEq_eq: "sqlEq a b \<Longrightarrow> a = b"
  by (simp add: sqlEq_def)

lemma cell_zip_nth:
  assumes "distinct cols" "i < length cols" "length params = length cols"
  shows "cell (zip cols params) (cols ! i) = params ! i"
  using assms by (simp add: cell_def map_of_zip_nth)

lemma userProfileReportColumns_distinct:
  "distinct userProfileReportColumns \<and> length userProfileReportColumns = 23"
  by (simp add: userProfileReportColumns_def)

text \<open>Every assignment of the update names the parameter that stands at the place of its
  column in the list of inserted columns.\<close>

lemma userProfileReportSets_positions:
  "list_all
     (\<lambda>c. c = ''userId'' \<or> c = ''createdAt'' \<or> c = ''createdBy'' \<or>
          (case map_of userProfileReportSets c of
             Some (Param n) \<Rightarrow> 0 < n \<and> n \<le> 23 \<and> userProfileReportColumns ! (n - 1) = c
           | _ \<Rightarrow> False))
     userProfileReportColumns"
  by code_simp

lemma userProfile_overwritten:
  assumes len: "length params = 23" and c: "c \<in> set userProfileReportColumns"
    and other: "c \<noteq> ''userId''" "c \<noteq> ''createdAt''" "c \<noteq> ''createdBy''"
  shows "map_of userProfileReportSets c \<noteq> None \<and>
     evalSet (zip userProfileReportColumns params) params (the (map_of userProfileReportSets c))
       = cell (zip userProfileReportColumns params) c"
proof -
  from userProfileReportSets_positions c other
  have "case map_of userProfileReportSets c of
             Some (Param n) \<Rightarrow> 0 < n \<and> n \<le> 23 \<and> userProfileReportColumns ! (n - 1) = c
           | _ \<Rightarrow> False"
    by (simp only: list_all_iff) blast
  then obtain n where n: "map_of userProfileReportSets c = Some (Param n)" "0 < n" "n \<le> 23"
    "userProfileReportColumns ! (n - 1) = c"
    by (auto split: option.splits setExpr.splits)
  have "cell (zip userProfileReportColumns params) (userProfileReportColumns ! (n - 1))
          = params ! (n - 1)"
    using n(2,3) len userProfileReportColumns_distinct by (intro cell_zip_nth) simp_all
  with n len show ?thesis
    by (simp add: param_def)
qed

lemma userProfile_kept:
  "map_of userProfileReportSets ''userId'' = None \<and>
   map_of userProfileReportSets ''createdAt'' = None \<and>
   map_of userProfileReportSets ''createdBy'' = None"
  by (simp add: userProfileReportSets_def)

lemma userProfile_key_cell:
  "cell (zip userProfileReportColumns (map prepareValue (userProfileReportValues userData)))
     ''userId'' = prepareValue (field userData ''userId'')"
  by (simp add: userProfileReportColumns_def userProfileReportValues_def cell_def)

text \<open>
  C4, as stated, fails: when a second version of a user's record meets the row of the
  first, \<open>username\<close> is overwritten but \<open>createdAt\<close> and \<open>createdBy\<close>, which are not key
  columns, keep the values of the existing row.
\<close>

theorem upsert_keeps_creation_columns_counterexample:
  "map (\<lambda>r. [cell r ''userId'', cell r ''username'', cell r ''createdAt'', cell r ''createdBy''])
     (snd (insertOrUpdateUserProfileReport acceptsAll profileV2
        (snd (insertOrUpdateUserProfileReport acceptsAll profileV1 []))))
   = [[JStr ''u1'', JStr ''asha.rao'', JStr ''2020-01-01'', JStr ''admin'']] \<and>
   field profileV2 ''createdAt'' = JStr ''2024-06-01'' \<and>
   field profileV2 ''createdBy'' = JStr ''importer''"
  by code_simp

text \<open>
  C4, amended: when the upsert of a user's record meets a row with the same key, every
  column of that row other than \<open>createdAt\<close> and \<open>createdBy\<close> takes the value of the new
  record, \<open>createdAt\<close> and \<open>createdBy\<close> keep the values of the existing row, and the other
  rows are left as they are.
\<close>

theorem upsert_conflict_keeps_creation_columns:
  assumes "map fst existing = userProfileReportColumns"
    and "sqlEq (cell existing ''userId'') (prepareValue (field userData ''userId''))"
    and "list_all (\<lambda>r. \<not> sqlEq (cell r ''userId'') (prepareValue (field userData ''userId'')))
           (before @ after)"
    and "\<not> refuses (map prepareValue (userProfileReportValues userData))"
  shows "\<exists>updated.
     insertOrUpdateUserProfileReport refuses userData (before @ existing # after)
       = (None, before @ updated # after) \<and>
     (\<forall>c \<in> set userProfileReportColumns.
        cell updated c =
          (if c = ''createdAt'' \<or> c = ''createdBy'' then cell existing c
           else cell (zip userProfileReportColumns
                        (map prepareValue (userProfileReportValues userData))) c))"
proof -
  let ?params = "map prepareValue (userProfileReportValues userData)"
  let ?excluded = "zip userProfileReportColumns ?params"
  let ?updated = "onConflictUpdate userProfileReportSets ?excluded ?params existing"
  have len: "length ?params = 23"
    by (simp add: userProfileReportValues_def)
  have run: "insertOrUpdateUserProfileReport refuses userData (before @ existing # after)
       = (None, before @ ?updated # after)"
    using assms(2-4)
    by (simp add: insertOrUpdateUserProfileReport_def destQuery_def Let_def
        sqlUpsert_conflict userProfile_key_cell)
  have cells: "cell ?updated c =
          (if c = ''createdAt'' \<or> c = ''createdBy'' then cell existing c
           else cell ?excluded c)" if c: "c \<in> set userProfileReportColumns" for c
  proof (cases "c = ''userId'' \<or> c = ''createdAt'' \<or> c = ''createdBy''")
    case True
    then have "map_of userProfileReportSets c = None"
      using userProfile_kept by (elim disjE) simp_all
    then have kept: "cell ?updated c = cell existing c"
      using map_of_columns [OF assms(1) c] by (simp add: cell_onConflictUpdate)
    have "cell existing ''userId'' = cell ?excluded ''userId''"
      using sqlEq_eq [OF assms(2)] by (simp add: userProfile_key_cell)
    with kept True show ?thesis
      by (cases "c = ''userId''") simp_all
  next
    case False
    then show ?thesis
      using userProfile_overwritten [OF len c] map_of_columns [OF assms(1) c]
      by (auto simp: cell_onConflictUpdate)
  qed
  have "\<forall>c \<in> set userProfileReportColumns. cell ?updated c =
          (if c = ''createdAt'' \<or> c = ''createdBy'' then cell existing c
           else cell ?excluded c)"
    by (intro ballI) (rule cells)
  with run show ?thesis
    by (intro exI [of _ ?updated] conjI)
qed

theorem upsert_conflict_keeps_creation_columns_witness:
  "\<exists>updated.
     insertOrUpdateUserProfileReport acceptsAll profileV2
       [zip userProfileReportColumns (map prepareValue (userProfileReportValues profileV1))]
       = (None, [updated]) \<and>
     cell updated ''username'' = JStr ''asha.rao'' \<and>
     cell updated ''updatedBy'' = JStr ''importer'' \<and>
     cell updated ''createdAt'' = JStr ''2020-01-01'' \<and>
     cell updated ''createdBy'' = JStr ''admin''"
proof -
  let ?existing =
    "zip userProfileReportColumns (map prepareValue (userProfileReportValues profileV1))"
  have h1: "map fst ?existing = userProfileReportColumns"
    by (simp add: userProfileReportValues_def userProfileReportColumns_def)
  have h2: "sqlEq (cell ?existing ''userId'') (prepareValue (field profileV2 ''userId''))"
    by (simp add: userProfile_key_cell profileV1_def profileV2_def field_def
        prepareValue_def sqlEq_def)
  have h3: "list_all (\<lambda>r. \<not> sqlEq (cell r ''userId'') (prepareValue (field profileV2 ''userId'')))
      ([] @ [])"
    by simp
  have h4: "\<not> acceptsAll (map prepareValue (userProfileReportValues profileV2))"
    by (simp add: acceptsAll_def)
  from upsert_conflict_keeps_creation_columns
    [of ?existing profileV2 "[]" "[]" acceptsAll, OF h1 h2 h3 h4]
  obtain updated where
    run: "insertOrUpdateUserProfileReport acceptsAll profileV2 ([] @ ?existing # [])
            = (None, [] @ updated # [])"
    and cells: "\<forall>c \<in> set userProfileReportColumns.
        cell updated c =
          (if c = ''createdAt'' \<or> c = ''createdBy'' then cell ?existing c
           else cell (zip userProfileReportColumns
                        (map prepareValue (userProfileReportValues profileV2))) c)"
    by blast
  have "''username'' \<in> set userProfileReportColumns"
    "''updatedBy'' \<in> set userProfileReportColumns"
    "''createdAt'' \<in> set userProfileReportColumns"
    "''createdBy'' \<in> set userProfileReportColumns"
    by (simp_all add: userProfileReportColumns_def)
  with cells have
    "cell updated ''username'' =
       cell (zip userProfileReportColumns
               (map prepareValue (userProfileReportValues profileV2))) ''username''"
    "cell updated ''updatedBy'' =
       cell (zip userProfileReportColumns
               (map prepareValue (userProfileReportValues profileV2))) ''updatedBy''"
    "cell updated ''createdAt'' = cell ?existing ''createdAt''"
    "cell updated ''createdBy'' = cell ?existing ''createdBy''"
    by simp_all
  then have
    "cell updated ''username'' = JStr ''asha.rao''"
    "cell updated ''updatedBy'' = JStr ''importer''"
    "cell updated ''createdAt'' = JStr ''2020-01-01''"
    "cell updated ''createdBy'' = JStr ''admin''"
    by (simp_all add: userProfileReportValues_def userProfileReportColumns_def
        profileV1_def profileV2_def field_def cell_def prepareValue_def)
  with run show ?thesis by simp
qed

text \<open>The upsert of the attendance report leaves the same two columns out of its update.\<close>

lemma attendanceSets_excluded:
  "list_all
     (\<lambda>c. c = ''attendanceId'' \<or> c = ''createdAt'' \<or> c = ''createdBy'' \<or>
          map_of attendanceSets c = Some (Excluded c))
     attendanceColumns"
  by code_simp

lemma attendance_overwritten:
  assumes "c \<in> set attendanceColumns"
    "c \<noteq> ''attendanceId''" "c \<noteq> ''createdAt''" "c \<noteq> ''createdBy''"
  shows "map_of attendanceSets c \<noteq> None \<and>
     evalSet (zip attendanceColumns params) params (the (map_of attendanceSets c))
       = cell (zip attendanceColumns params) c"
proof -
  from attendanceSets_excluded assms have "map_of attendanceSets c = Some (Excluded c)"
    by (simp only: list_all_iff) blast
  then show ?thesis by simp
qed

lemma attendance_kept:
  "map_of attendanceSets ''attendanceId'' = None \<and>
   map_of attendanceSets ''createdAt'' = None \<and>
   map_of attendanceSets ''createdBy'' = None"
  by (simp add: attendanceSets_def)

lemma attendance_key_cell:
  "cell (zip attendanceColumns (map prepareValue (attendanceValues a))) ''attendanceId''
     = prepareValue (field a ''attendanceId'')"
  by (simp add: attendanceColumns_def attendanceValues_def cell_def)

lemma attendance_conflict_keeps_creation_columns:
  assumes "map fst existing = attendanceColumns"
    and "sqlEq (cell existing ''attendanceId'') (prepareValue (field attendance ''attendanceId''))"
    and "list_all
           (\<lambda>r. \<not> sqlEq (cell r ''attendanceId'') (prepareValue (field attendance ''attendanceId'')))
           (before @ after)"
    and "\<not> refuses (map prepareValue (attendanceValues attendance))"
  shows "\<exists>updated.
     processAttendance refuses attendance (before @ existing # after)
       = (None, before @ updated # after) \<and>
     (\<forall>c \<in> set attendanceColumns.
        cell updated c =
          (if c = ''createdAt'' \<or> c = ''createdBy'' then cell existing c
           else cell (zip attendanceColumns
                        (map prepareValue (attendanceValues attendance))) c))"
proof -
  let ?params = "map prepareValue (attendanceValues attendance)"
  let ?excluded = "zip attendanceColumns ?params"
  let ?updated = "onConflictUpdate attendanceSets ?excluded ?params existing"
  have run: "processAttendance refuses attendance (before @ existing # after)
       = (None, before @ ?updated # after)"
    using assms(2-4)
    by (simp add: processAttendance_def catchAndLog_def destQuery_def Let_def
        sqlUpsert_conflict attendance_key_cell)
  have cells: "cell ?updated c =
          (if c = ''createdAt'' \<or> c = ''createdBy'' then cell existing c
           else cell ?excluded c)" if c: "c \<in> set attendanceColumns" for c
  proof (cases "c = ''attendanceId'' \<or> c = ''createdAt'' \<or> c = ''createdBy''")
    case True
    then have "map_of attendanceSets c = None"
      using attendance_kept by (elim disjE) simp_all
    then have kept: "cell ?updated c = cell existing c"
      using map_of_columns [OF assms(1) c] by (simp add: cell_onConflictUpdate)
    have "cell existing ''attendanceId'' = cell ?excluded ''attendanceId''"
      using sqlEq_eq [OF assms(2)] by (simp add: attendance_key_cell)
    with kept True show ?thesis
      by (cases "c = ''attendanceId''") simp_all
  next
    case False
    then show ?thesis
      using attendance_overwritten [OF c, of ?params] map_of_columns [OF assms(1) c]
      by (auto simp: cell_onConflictUpdate)
  qed
  have "\<forall>c \<in> set attendanceColumns. cell ?updated c =
          (if c = ''createdAt'' \<or> c = ''createdBy'' then cell existing c
           else cell ?excluded c)"
    by (intro ballI) (rule cells)
  with run show ?thesis
    by (intro exI [of _ ?updated] conjI)
qed

section \<open>Batch runners\<close>

text \<open>With a destination that accepts every statement both users are written. The row of
  the first shows the stored full name and the defaults of a user without attributes,
  cohorts, tenant or role.\<close>

lemma migrateUserProfileReports_accepted:
  "migrateUserProfileReports twoUsers acceptsAll [] =
     (None,
      [zip userProfileReportColumns
         [JStr ''u1'', JStr ''asha'', JStr ''Asha  Rao'', JNull, JNull, JNull, JNull, JNull,
          JNull, JStr ''active'', JNull, JNull, JNull, JNull, JNull, JNull, JStr ''{}'',
          JStr ''[]'', JNum 0, JNull, JNull, JNull, JNull],
       zip userProfileReportColumns
         [JStr ''u2'', JStr ''ravi'', JStr ''Ravi  Kumar'', JNull, JNull, JNull, JNull, JNull,
          JNull, JStr ''active'', JNull, JNull, JNull, JNull, JNull, JNull, JStr ''{}'',
          JStr ''[]'', JNum 0, JNull, JNull, JNull, JNull]])"
  by code_simp

text \<open>The spaces that absent first and middle names leave in front are not stored.\<close>

lemma migrateUserProfileReports_trims_fullName:
  "map (\<lambda>r. cell r ''fullName'') (snd (migrateUserProfileReports onlyLastName acceptsAll []))
     = [JStr ''Rao'']"
  by code_simp

text \<open>
  C1 fails on the user profile runner: \<open>processUser\<close> has no \<open>try\<close> of its own, so when
  the destination refuses the write of the first of two users, the exception leaves the
  loop, the \<open>catch\<close> around the whole run logs it, and the second user is never written.
\<close>

theorem migrateUserProfileReports_aborts_on_refused_write:
  "migrateUserProfileReports twoUsers (refusesKey (JStr ''u1'')) [] = (Some QueryError, [])"
  by code_simp

text \<open>The loop of the assessment runner has no \<open>try\<close> either.\<close>

lemma migrateAssessmentTrackingTable_aborts_on_refused_write:
  "migrateAssessmentTrackingTable twoAssessments noContent (refusesKey (JStr ''t1'')) []
     = (Some QueryError, [])"
  by code_simp

text \<open>The attendance and the cohort runner catch inside the loop: every row is processed,
  whatever the destination refuses.\<close>

lemma forRows_caught:
  assumes "\<And>x t. fst (body x t) = None"
  shows "forRows body xs t = (None, foldl (\<lambda>t x. snd (body x t)) t xs)"
  using assms by (induction xs arbitrary: t) simp_all

lemma migrateAttendanceReports_processes_every_row:
  "sourceClient AttendanceQuery [] = Inr rows \<Longrightarrow>
   migrateAttendanceReports sourceClient refuses t =
     (None, foldl (\<lambda>t a. snd (processAttendance refuses a t)) t rows)"
  by (simp add: migrateAttendanceReports_def forRows_caught processAttendance_def
      catchAndLog_def)

lemma migrateCohortSummaryReports_processes_every_row:
  "sourceClient CohortSummaryQuery [] = Inr rows \<Longrightarrow>
   migrateCohortSummaryReports sourceClient refuses t =
     (None, foldl (\<lambda>t c. snd (processCohort sourceClient refuses c t)) t rows)"
  by (simp add: migrateCohortSummaryReports_def forRows_caught processCohort_def
      catchAndLog_def)

lemma migrateAttendanceReports_continues_after_refused_write:
  "migrateAttendanceReports twoAttendances (refusesKey (JStr ''a1'')) [] =
     (None,
      [zip attendanceColumns
         [JStr ''a2'', JStr ''u2'', JNull, JNull, JNull, JStr ''absent'', JNull, JNull, JNull,
          JNull, JNull]])"
  by code_simp

text \<open>
  C3 fails on the course runner: for a course whose lookup gives no content the transformed
  record has no \<open>courseDoId\<close>, the key sent to the delete is \<open>NULL\<close>, which matches no row,
  and the insert adds a row. After the first run the table holds one row, after the second
  run, against the same source, two.
\<close>

theorem migrateCourseTable_second_run_adds_row:
  "snd (migrateCourseTable oneCourse noContent acceptsAll []) =
     [zip courseColumns [JNull, JNull, JNull, JStr ''[]'', JStr ''[]'', JStr ''[]'',
                         JStr ''[]'', JStr ''[]'', JStr ''{}'']] \<and>
   snd (migrateCourseTable oneCourse noContent acceptsAll
          (snd (migrateCourseTable oneCourse noContent acceptsAll []))) =
     [zip courseColumns [JNull, JNull, JNull, JStr ''[]'', JStr ''[]'', JStr ''[]'',
                         JStr ''[]'', JStr ''[]'', JStr ''{}''],
      zip courseColumns [JNull, JNull, JNull, JStr ''[]'', JStr ''[]'', JStr ''[]'',
                         JStr ''[]'', JStr ''[]'', JStr ''{}'']]"
  by code_simp

text \<open>The user profile runner, which writes by upsert, leaves the table of the first run
  unchanged when it runs again.\<close>

lemma migrateUserProfileReports_second_run_same:
  "migrateUserProfileReports twoUsers acceptsAll
     (snd (migrateUserProfileReports twoUsers acceptsAll []))
   = migrateUserProfileReports twoUsers acceptsAll []"
  by code_simp

section \<open>Running the upsert runner again\<close>

text \<open>
  The upsert of a record that the table already holds changes nothing, an upsert of a
  record with another key leaves that property as it is, and so a second run of the user
  profile runner over the same users (distinct identifiers, none of them \<open>NULL\<close>) and the
  same enrichment leaves the table of the first run, whatever the destination refuses.
\<close>

lemma cell_zip_self:
  assumes "distinct cols" "length params = length cols" "(c, v) \<in> set (zip cols params)"
  shows "cell (zip cols params) c = v"
  using assms by (simp add: cell_def)

lemma onConflictUpdate_key:
  "map_of sets k = None \<Longrightarrow> cell (onConflictUpdate sets excluded params r) k = cell r k"
  unfolding cell_onConflictUpdate by (simp add: cell_def split: option.splits)

lemma onConflictUpdate_twice:
  "onConflictUpdate sets excluded params (onConflictUpdate sets excluded params r)
     = onConflictUpdate sets excluded params r"
  by (simp add: onConflictUpdate_def split: option.splits)

lemma onConflictUpdate_excluded:
  assumes "distinct cols" "length params = length cols"
    and "list_all (\<lambda>p. evalSet (zip cols params) params (snd p) = cell (zip cols params) (fst p)) sets"
  shows "onConflictUpdate sets (zip cols params) params (zip cols params) = zip cols params"
proof -
  have "(case map_of sets (fst p) of None \<Rightarrow> snd p
         | Some e \<Rightarrow> evalSet (zip cols params) params e) = snd p"
    if p: "p \<in> set (zip cols params)" for p
  proof (cases "map_of sets (fst p)")
    case None
    then show ?thesis by simp
  next
    case (Some e)
    then have "(fst p, e) \<in> set sets" by (rule map_of_SomeD)
    with assms(3) have "evalSet (zip cols params) params e = cell (zip cols params) (fst p)"
      by (auto simp: list_all_iff)
    moreover have "cell (zip cols params) (fst p) = snd p"
      using cell_zip_self [OF assms(1,2), of "fst p" "snd p"] p by simp
    ultimately show ?thesis using Some by simp
  qed
  then show ?thesis
    unfolding onConflictUpdate_def by (intro map_idI) simp
qed

lemma sqlUpsert_same_record_twice:
  assumes key: "\<not> cell (zip cols params) k = JNull"
    and nokey: "map_of sets k = None"
    and cols: "distinct cols" "length params = length cols"
    and sets: "list_all (\<lambda>p. evalSet (zip cols params) params (snd p) = cell (zip cols params) (fst p)) sets"
  shows "sqlUpsert k cols sets params (sqlUpsert k cols sets params t)
           = sqlUpsert k cols sets params t"
proof -
  let ?ex = "zip cols params"
  let ?conf = "\<lambda>r. sqlEq (cell r k) (cell ?ex k)"
  let ?upd = "onConflictUpdate sets ?ex params"
  let ?f = "\<lambda>r. if ?conf r then ?upd r else r"
  have ff: "?f (?f r) = ?f r" for r
    by (simp add: onConflictUpdate_key [OF nokey] onConflictUpdate_twice)
  have conf_f: "?conf (?f r) = ?conf r" for r
    by (simp add: onConflictUpdate_key [OF nokey])
  have conf_ex: "?conf ?ex"
    using key by (simp add: sqlEq_def)
  show ?thesis
  proof (cases "list_ex ?conf t")
    case True
    then obtain r where r: "r \<in> set t" "?conf r"
      by (auto simp: list_ex_iff)
    have "?conf (?f r)"
      using conf_f [of r] r(2) by blast
    moreover have "?f r \<in> set (map ?f t)"
      using r(1) unfolding set_map by (rule imageI)
    ultimately have "list_ex ?conf (map ?f t)"
      unfolding list_ex_iff by blast
    with True show ?thesis
      using ff by (simp add: sqlUpsert_def Let_def)
  next
    case False
    then have "map ?f t = t"
      by (intro map_idI) (auto simp: list_ex_iff)
    moreover have "?f ?ex = ?ex"
      using conf_ex onConflictUpdate_excluded [OF cols sets] by simp
    ultimately show ?thesis
      using False conf_ex by (simp add: sqlUpsert_def Let_def)
  qed
qed

lemma userProfileReportSets_consistent:
  "list_all
     (\<lambda>p. case snd p of
             Param n \<Rightarrow> 0 < n \<and> n \<le> 23 \<and> userProfileReportColumns ! (n - 1) = fst p
           | Excluded c \<Rightarrow> c = fst p)
     userProfileReportSets"
  by code_simp

lemma userProfile_sets_evaluate:
  assumes "length params = 23"
  shows "list_all
     (\<lambda>p. evalSet (zip userProfileReportColumns params) params (snd p)
            = cell (zip userProfileReportColumns params) (fst p))
     userProfileReportSets"
proof -
  have "evalSet (zip userProfileReportColumns params) params (snd p)
            = cell (zip userProfileReportColumns params) (fst p)"
    if "p \<in> set userProfileReportSets" for p
  proof (cases "snd p")
    case (Param n)
    with that userProfileReportSets_consistent
    have n: "0 < n" "n \<le> 23" "userProfileReportColumns ! (n - 1) = fst p"
      by (auto simp: list_all_iff)
    have "cell (zip userProfileReportColumns params) (userProfileReportColumns ! (n - 1))
            = params ! (n - 1)"
      using n(1,2) assms userProfileReportColumns_distinct by (intro cell_zip_nth) simp_all
    with n assms Param show ?thesis by (simp add: param_def)
  next
    case (Excluded c)
    with that userProfileReportSets_consistent have "c = fst p"
      by (auto simp: list_all_iff)
    with Excluded show ?thesis by simp
  qed
  then show ?thesis by (simp add: list_all_iff)
qed

lemma insertOrUpdateUserProfileReport_same_record_twice:
  assumes "\<not> isNullish (field userData ''userId'')"
  shows "insertOrUpdateUserProfileReport refuses userData
           (snd (insertOrUpdateUserProfileReport refuses userData t))
         = insertOrUpdateUserProfileReport refuses userData t"
proof -
  let ?params = "map prepareValue (userProfileReportValues userData)"
  have len: "length ?params = 23"
    by (simp add: userProfileReportValues_def)
  have key: "\<not> cell (zip userProfileReportColumns ?params) ''userId'' = JNull"
    using assms by (simp add: userProfile_key_cell prepareValue_def isNullish_def)
  have "sqlUpsert ''userId'' userProfileReportColumns userProfileReportSets ?params
          (sqlUpsert ''userId'' userProfileReportColumns userProfileReportSets ?params t)
        = sqlUpsert ''userId'' userProfileReportColumns userProfileReportSets ?params t"
    using key userProfile_kept userProfileReportColumns_distinct len
      userProfile_sets_evaluate [OF len]
    by (intro sqlUpsert_same_record_twice) simp_all
  then show ?thesis
    by (simp add: insertOrUpdateUserProfileReport_def destQuery_def Let_def)
qed

lemma map_fixed: "map f xs = xs \<Longrightarrow> x \<in> set xs \<Longrightarrow> f x = x"
  by (induction xs) auto

lemma sqlUpsert_absorbed_conflict:
  assumes "sqlUpsert k cols sets params t = t"
  shows "list_ex (\<lambda>r. sqlEq (cell r k) (cell (zip cols params) k)) t"
proof (rule ccontr)
  assume "\<not> list_ex (\<lambda>r. sqlEq (cell r k) (cell (zip cols params) k)) t"
  then have "sqlUpsert k cols sets params t = t @ [zip cols params]"
    by (simp add: sqlUpsert_def Let_def)
  with assms show False by simp
qed

lemma sqlUpsert_absorbed_rows:
  assumes "sqlUpsert k cols sets params t = t" "r \<in> set t"
    "sqlEq (cell r k) (cell (zip cols params) k)"
  shows "onConflictUpdate sets (zip cols params) params r = r"
proof -
  let ?f = "\<lambda>r. if sqlEq (cell r k) (cell (zip cols params) k)
                 then onConflictUpdate sets (zip cols params) params r else r"
  have "map ?f t = t"
    using assms(1) sqlUpsert_absorbed_conflict [OF assms(1)]
    by (simp add: sqlUpsert_def Let_def)
  then have "?f r = r"
    using assms(2) by (rule map_fixed)
  with assms(3) show ?thesis by simp
qed

lemma sqlUpsert_absorbed_preserved:
  assumes nokey: "map_of sets k = None"
    and differ: "cell (zip cols p) k \<noteq> cell (zip cols q) k"
    and absorbed: "sqlUpsert k cols sets p t = t"
  shows "sqlUpsert k cols sets p (sqlUpsert k cols sets q t) = sqlUpsert k cols sets q t"
proof -
  let ?cp = "\<lambda>r. sqlEq (cell r k) (cell (zip cols p) k)"
  let ?cq = "\<lambda>r. sqlEq (cell r k) (cell (zip cols q) k)"
  let ?up = "onConflictUpdate sets (zip cols p) p"
  let ?uq = "onConflictUpdate sets (zip cols q) q"
  let ?fp = "\<lambda>r. if ?cp r then ?up r else r"
  let ?fq = "\<lambda>r. if ?cq r then ?uq r else r"
  have excl: "?cq r \<Longrightarrow> \<not> ?cp r" for r
    using differ by (auto simp: sqlEq_def)
  have ex_p: "list_ex ?cp t"
    using absorbed by (rule sqlUpsert_absorbed_conflict)
  have fix_p: "?up r = r" if "r \<in> set t" "?cp r" for r
    using absorbed that by (rule sqlUpsert_absorbed_rows)
  have key_uq: "cell (?uq r) k = cell r k" for r
    by (rule onConflictUpdate_key [OF nokey])
  have fp_fix: "?fp r = r" if r: "r \<in> set t" for r
  proof (cases "?cp r")
    case True
    have c: "?fp r = ?up r" using True by (rule if_P)
    show ?thesis using c fix_p [OF r True] by (rule trans)
  next
    case False
    then show ?thesis by (rule if_not_P)
  qed
  have fp_fq: "?fp (?fq r) = ?fq r" if r: "r \<in> set t" for r
  proof (cases "?cq r")
    case True
    have "\<not> ?cp (?uq r)"
      using excl [OF True] by (simp add: key_uq)
    then have a: "?fp (?uq r) = ?uq r" by (rule if_not_P)
    have b: "?fq r = ?uq r" using True by (rule if_P)
    show ?thesis unfolding b by (rule a)
  next
    case False
    then have b: "?fq r = r" by (rule if_not_P)
    show ?thesis unfolding b by (rule fp_fix [OF r])
  qed
  show ?thesis
  proof (cases "list_ex ?cq t")
    case True
    then have q: "sqlUpsert k cols sets q t = map ?fq t"
      by (simp add: sqlUpsert_def Let_def)
    from ex_p obtain r where r: "r \<in> set t" "?cp r"
      unfolding list_ex_iff by blast
    have "\<not> ?cq r" using excl [of r] r(2) by blast
    then have "?fq r = r" by (rule if_not_P)
    moreover have "?fq r \<in> set (map ?fq t)"
      using r(1) unfolding set_map by (rule imageI)
    ultimately have "r \<in> set (map ?fq t)" by (simp only:)
    with r(2) have ex: "list_ex ?cp (map ?fq t)"
      unfolding list_ex_iff by blast
    have "map ?fp (map ?fq t) = map ?fq t"
      unfolding map_map comp_def using fp_fq by (intro map_cong refl)
    with ex have "sqlUpsert k cols sets p (map ?fq t) = map ?fq t"
      by (simp only: sqlUpsert_def Let_def if_True)
    with q show ?thesis by (simp only:)
  next
    case False
    then have q: "sqlUpsert k cols sets q t = t @ [zip cols q]"
      by (simp add: sqlUpsert_def Let_def)
    have nq: "\<not> ?cp (zip cols q)"
      using differ by (auto simp: sqlEq_def)
    have "map ?fp t = t"
      using fp_fix by (rule map_idI)
    with nq have "map ?fp (t @ [zip cols q]) = t @ [zip cols q]"
      by simp
    moreover have "list_ex ?cp (t @ [zip cols q])"
      using ex_p by (simp add: list_ex_iff)
    ultimately have "sqlUpsert k cols sets p (t @ [zip cols q]) = t @ [zip cols q]"
      by (simp only: sqlUpsert_def Let_def if_True)
    with q show ?thesis by (simp only:)
  qed
qed

lemma foldl_sqlUpsert_absorbed_preserved:
  assumes nokey: "map_of sets k = None"
    and "sqlUpsert k cols sets p t = t"
    and "\<forall>q \<in> set qs. cell (zip cols p) k \<noteq> cell (zip cols q) k"
  shows "sqlUpsert k cols sets p (foldl (\<lambda>t q. sqlUpsert k cols sets q t) t qs)
           = foldl (\<lambda>t q. sqlUpsert k cols sets q t) t qs"
  using assms(2,3)
proof (induction qs arbitrary: t)
  case Nil
  then show ?case by simp
next
  case (Cons q qs)
  have "sqlUpsert k cols sets p (sqlUpsert k cols sets q t) = sqlUpsert k cols sets q t"
    using nokey Cons.prems by (intro sqlUpsert_absorbed_preserved) simp_all
  then show ?case
    using Cons.IH [of "sqlUpsert k cols sets q t"] Cons.prems(2) by simp
qed

lemma foldl_sqlUpsert_all_absorbed:
  assumes nokey: "map_of sets k = None" and cols: "distinct cols"
    and each: "\<forall>p \<in> set ps. length p = length cols \<and> \<not> cell (zip cols p) k = JNull \<and>
        list_all (\<lambda>s. evalSet (zip cols p) p (snd s) = cell (zip cols p) (fst s)) sets"
    and keys: "distinct (map (\<lambda>p. cell (zip cols p) k) ps)"
    and p: "p \<in> set ps"
  shows "sqlUpsert k cols sets p (foldl (\<lambda>t q. sqlUpsert k cols sets q t) t ps)
           = foldl (\<lambda>t q. sqlUpsert k cols sets q t) t ps"
  using each keys p
proof (induction ps arbitrary: t)
  case Nil
  then show ?case by simp
next
  case (Cons q qs)
  show ?case
  proof (cases "p = q")
    case True
    have "sqlUpsert k cols sets q (sqlUpsert k cols sets q t) = sqlUpsert k cols sets q t"
      using nokey cols Cons.prems(1) by (intro sqlUpsert_same_record_twice) simp_all
    moreover have "\<forall>q' \<in> set qs. cell (zip cols q) k \<noteq> cell (zip cols q') k"
      using Cons.prems(2) by auto
    ultimately have
      "sqlUpsert k cols sets q
         (foldl (\<lambda>t q. sqlUpsert k cols sets q t) (sqlUpsert k cols sets q t) qs)
       = foldl (\<lambda>t q. sqlUpsert k cols sets q t) (sqlUpsert k cols sets q t) qs"
      using nokey by (intro foldl_sqlUpsert_absorbed_preserved)
    with True show ?thesis by simp
  next
    case False
    with Cons.prems have "p \<in> set qs" by simp
    then show ?thesis
      using Cons.IH [of "sqlUpsert k cols sets q t"] Cons.prems(1,2) by simp
  qed
qed

lemma foldl_absorbed:
  "\<forall>p \<in> set ps. f p t = t \<Longrightarrow> foldl (\<lambda>t p. f p t) t ps = t"
  by (induction ps) simp_all

lemma foldl_sqlUpsert_second_pass:
  assumes "map_of sets k = None" "distinct cols"
    and "\<forall>p \<in> set ps. length p = length cols \<and> \<not> cell (zip cols p) k = JNull \<and>
        list_all (\<lambda>s. evalSet (zip cols p) p (snd s) = cell (zip cols p) (fst s)) sets"
    and "distinct (map (\<lambda>p. cell (zip cols p) k) ps)"
  shows "foldl (\<lambda>t q. sqlUpsert k cols sets q t)
           (foldl (\<lambda>t q. sqlUpsert k cols sets q t) t ps) ps
         = foldl (\<lambda>t q. sqlUpsert k cols sets q t) t ps"
  using foldl_sqlUpsert_all_absorbed [OF assms]
  by (intro foldl_absorbed [where f = "sqlUpsert k cols sets"]) blast

lemma insertOrUpdateUserProfileReport_cases:
  "insertOrUpdateUserProfileReport refuses userData t =
     (if refuses (map prepareValue (userProfileReportValues userData)) then (Some QueryError, t)
      else (None, sqlUpsert ''userId'' userProfileReportColumns userProfileReportSets
                    (map prepareValue (userProfileReportValues userData)) t))"
  by (simp add: insertOrUpdateUserProfileReport_def destQuery_def Let_def)

lemma processUser_shape:
  "(\<exists>e. \<forall>t. processUser sourceClient refuses user t = (Some e, t)) \<or>
   (\<exists>ps. length ps = 23 \<and>
      cell (zip userProfileReportColumns ps) ''userId'' = prepareValue (field user ''userId'') \<and>
      (\<forall>t. processUser sourceClient refuses user t =
             (None, sqlUpsert ''userId'' userProfileReportColumns userProfileReportSets ps t)))"
proof -
  obtain r where r: "r =
        bind (getCustomFields sourceClient (field user ''userId'')) (\<lambda>customFields.
        bind (getUserLocationIds sourceClient (field user ''userId'')) (\<lambda>locationIds.
        bind (getLocationNames sourceClient locationIds) (\<lambda>locationNames.
        bind (getUserCohorts sourceClient (field user ''userId'')) (\<lambda>cohorts.
        bind (getUserTenantAndRole sourceClient (field user ''userId'')) (\<lambda>tenantAndRole.
        bind (callTrim (field user ''fullName'')) (\<lambda>fullName.
          Inr [(''userId'', field user ''userId''),
               (''username'', field user ''username''),
               (''fullName'', fullName),
               (''email'', js_or (field user ''email'') JNull),
               (''mobile'', js_or (field user ''mobile'') JNull),
               (''dob'', js_or (field user ''dob'') JNull),
               (''gender'', js_or (field user ''gender'') JNull),
               (''tenantId'', field tenantAndRole ''tenantId''),
               (''tenantName'', field tenantAndRole ''tenantName''),
               (''status'', field user ''status''),
               (''createdAt'', field user ''createdAt''),
               (''updatedAt'', field user ''updatedAt''),
               (''createdBy'', field user ''createdBy''),
               (''updatedBy'', field user ''updatedBy''),
               (''roleName'', field tenantAndRole ''roleName''),
               (''roleId'', field tenantAndRole ''roleId''),
               (''customFields'', JObj customFields),
               (''cohorts'', JArr (map JObj cohorts)),
               (''automaticMember'',
                  JNum (if determineAutomaticMembership cohorts then 1 else 0)),
               (''state'', field locationNames ''stateName''),
               (''district'', field locationNames ''districtName''),
               (''block'', field locationNames ''blockName''),
               (''village'', field locationNames ''villageName'')]))))))"
    by blast
  have run: "processUser sourceClient refuses user t =
      (case r of Inl e \<Rightarrow> (Some e, t)
       | Inr userData \<Rightarrow> insertOrUpdateUserProfileReport refuses userData t)" for t
    unfolding r processUser_def by (rule refl)
  show ?thesis
  proof (cases r)
    case (Inl e)
    then show ?thesis using run by simp
  next
    case (Inr userData)
    then have "field userData ''userId'' = field user ''userId''"
      unfolding r by (auto simp: bind_def field_def split: sum.splits)
    then have key: "cell (zip userProfileReportColumns
                     (map prepareValue (userProfileReportValues userData))) ''userId''
               = prepareValue (field user ''userId'')"
      by (simp add: userProfile_key_cell)
    have len: "length (map prepareValue (userProfileReportValues userData)) = 23"
      by (simp add: userProfileReportValues_def)
    show ?thesis
    proof (cases "refuses (map prepareValue (userProfileReportValues userData))")
      case True
      then show ?thesis
        using run Inr by (simp add: insertOrUpdateUserProfileReport_cases)
    next
      case False
      then have "\<forall>t. processUser sourceClient refuses user t =
             (None, sqlUpsert ''userId'' userProfileReportColumns userProfileReportSets
                      (map prepareValue (userProfileReportValues userData)) t)"
        using run Inr by (simp add: insertOrUpdateUserProfileReport_cases)
      with key len show ?thesis by blast
    qed
  qed
qed

lemma forRows_shape:
  assumes "\<forall>x \<in> set rows.
      (\<exists>e. \<forall>t. body x t = (Some e, t)) \<or> (\<exists>ps. Q x ps \<and> (\<forall>t. body x t = (None, f ps t)))"
  shows "\<exists>e n pss. list_all2 Q (take n rows) pss \<and>
           (\<forall>t. forRows body rows t = (e, foldl (\<lambda>t ps. f ps t) t pss))"
  using assms
proof (induction rows)
  case Nil
  have "list_all2 Q (take 0 []) [] \<and> (\<forall>t. forRows body [] t = (None, foldl (\<lambda>t ps. f ps t) t []))"
    by simp
  then show ?case by blast
next
  case (Cons x xs)
  from Cons.prems have
    "(\<exists>e. \<forall>t. body x t = (Some e, t)) \<or> (\<exists>ps. Q x ps \<and> (\<forall>t. body x t = (None, f ps t)))"
    by simp
  then show ?case
  proof
    assume "\<exists>e. \<forall>t. body x t = (Some e, t)"
    then obtain e where e: "\<forall>t. body x t = (Some e, t)" by blast
    have "list_all2 Q (take 0 (x # xs)) [] \<and>
          (\<forall>t. forRows body (x # xs) t = (Some e, foldl (\<lambda>t ps. f ps t) t []))"
      using e by simp
    then show ?thesis by blast
  next
    assume "\<exists>ps. Q x ps \<and> (\<forall>t. body x t = (None, f ps t))"
    then obtain ps where ps: "Q x ps" "\<forall>t. body x t = (None, f ps t)" by blast
    from Cons.IH Cons.prems obtain e n pss where
      ih: "list_all2 Q (take n xs) pss"
        "\<forall>t. forRows body xs t = (e, foldl (\<lambda>t ps. f ps t) t pss)"
      by auto
    have "list_all2 Q (take (Suc n) (x # xs)) (ps # pss) \<and>
          (\<forall>t. forRows body (x # xs) t = (e, foldl (\<lambda>t ps. f ps t) t (ps # pss)))"
      using ps ih by simp
    then show ?thesis by blast
  qed
qed

lemma list_all2_map_eq:
  "list_all2 (\<lambda>x y. h x = g y) xs ys \<Longrightarrow> map g ys = map h xs"
  by (induction rule: list_all2_induct) simp_all

lemma list_all2_right:
  "list_all2 P xs ys \<Longrightarrow> y \<in> set ys \<Longrightarrow> \<exists>x \<in> set xs. P x y"
  by (induction rule: list_all2_induct) auto

lemma userProfile_run_again:
  assumes "distinct (map (\<lambda>u. field u ''userId'') rows)"
    and "list_all (\<lambda>u. \<not> isNullish (field u ''userId'')) rows"
  shows "forRows (processUser sourceClient refuses) rows
           (snd (forRows (processUser sourceClient refuses) rows t))
         = forRows (processUser sourceClient refuses) rows t"
proof -
  let ?Q = "\<lambda>u ps. length ps = 23 \<and>
      cell (zip userProfileReportColumns ps) ''userId'' = prepareValue (field u ''userId'')"
  let ?U = "sqlUpsert ''userId'' userProfileReportColumns userProfileReportSets"
  let ?key = "\<lambda>p. cell (zip userProfileReportColumns p) ''userId''"
  have "\<forall>x \<in> set rows.
      (\<exists>e. \<forall>t. processUser sourceClient refuses x t = (Some e, t)) \<or>
      (\<exists>ps. ?Q x ps \<and> (\<forall>t. processUser sourceClient refuses x t = (None, ?U ps t)))"
    using processUser_shape by blast
  from forRows_shape [where Q = ?Q and f = ?U, OF this]
  obtain e n pss where
    q: "list_all2 ?Q (take n rows) pss"
    and run: "\<forall>t. forRows (processUser sourceClient refuses) rows t
                = (e, foldl (\<lambda>t ps. ?U ps t) t pss)"
    by blast
  have id: "prepareValue (field u ''userId'') = field u ''userId''"
    and nonnull: "\<not> field u ''userId'' = JNull" if "u \<in> set (take n rows)" for u
    using assms(2) that
    by (auto simp: list_all_iff prepareValue_def isNullish_def dest: in_set_takeD)
  have "list_all2 (\<lambda>u ps. prepareValue (field u ''userId'') = ?key ps) (take n rows) pss"
    using q by (rule list_all2_mono) simp
  then have "map ?key pss = map (\<lambda>u. prepareValue (field u ''userId'')) (take n rows)"
    by (rule list_all2_map_eq)
  also have "\<dots> = map (\<lambda>u. field u ''userId'') (take n rows)"
    using id by (intro map_cong refl)
  finally have keys: "map ?key pss = take n (map (\<lambda>u. field u ''userId'') rows)"
    by (simp only: take_map)
  then have dist: "distinct (map ?key pss)"
    using assms(1) by (simp only: distinct_take)
  have each: "\<forall>p \<in> set pss. length p = length userProfileReportColumns \<and>
      \<not> ?key p = JNull \<and>
      list_all (\<lambda>s. evalSet (zip userProfileReportColumns p) p (snd s)
                     = cell (zip userProfileReportColumns p) (fst s)) userProfileReportSets"
  proof
    fix p assume "p \<in> set pss"
    then obtain u where u: "u \<in> set (take n rows)" "?Q u p"
      using list_all2_right [OF q] by blast
    then have "length p = 23" "?key p = field u ''userId''"
      using id [OF u(1)] by simp_all
    then show "length p = length userProfileReportColumns \<and> \<not> ?key p = JNull \<and>
      list_all (\<lambda>s. evalSet (zip userProfileReportColumns p) p (snd s)
                     = cell (zip userProfileReportColumns p) (fst s)) userProfileReportSets"
      using nonnull [OF u(1)] userProfile_sets_evaluate [of p] userProfileReportColumns_distinct
      by simp
  qed
  have "foldl (\<lambda>t ps. ?U ps t) (foldl (\<lambda>t ps. ?U ps t) t pss) pss
          = foldl (\<lambda>t ps. ?U ps t) t pss"
    using userProfile_kept userProfileReportColumns_distinct each dist
    by (intro foldl_sqlUpsert_second_pass) simp_all
  then show ?thesis
    using run by simp
qed

lemma migrateUserProfileReports_run_again:
  assumes "\<forall>rows. sourceClient UsersQuery [] = Inr rows \<longrightarrow>
      distinct (map (\<lambda>u. field u ''userId'') rows) \<and>
      list_all (\<lambda>u. \<not> isNullish (field u ''userId'')) rows"
  shows "migrateUserProfileReports sourceClient refuses
           (snd (migrateUserProfileReports sourceClient refuses t))
         = migrateUserProfileReports sourceClient refuses t"
proof (cases "sourceClient UsersQuery []")
  case (Inl e)
  then show ?thesis by (simp add: migrateUserProfileReports_def)
next
  case (Inr rows)
  with assms have "distinct (map (\<lambda>u. field u ''userId'') rows)"
    "list_all (\<lambda>u. \<not> isNullish (field u ''userId'')) rows"
    by simp_all
  then show ?thesis
    using Inr by (simp add: migrateUserProfileReports_def userProfile_run_again)
qed

end
